theory Spec2Isabelle
  imports Main "HOL-Library.AList"
begin

section \<open>JavaScript values\<close>

text \<open>
  The values the data pipeline of \<^verbatim>\<open>data-fetcher.js\<close> handles are parsed JSON documents,
  the objects it builds from them, and the few native objects that a property read on a
  plain object can reach through \<^verbatim>\<open>Object.prototype\<close>.  Numbers are modelled as
  mathematical integers, which is exact for magnitudes below \<open>2^53\<close> and so for every
  epoch-millisecond timestamp; \<open>NaN\<close> is written \<open>None\<close> where a conversion can produce it.
  An object is the list of its own properties, the first binding of a name being its value.
\<close>

datatype js_value =
    Undefined
  | Null
  | Bool bool
  | Num int
  | Str string
  | Arr "js_value list"
  | Obj "(string \<times> js_value) list"
  | NativeFunction string
  | ObjectPrototype

datatype js_error =
    Error string
  | TypeError
  | SyntaxError
  | QuotaExceededError

text \<open>JavaScript truthiness: the condition of \<^verbatim>\<open>if (v)\<close>, \<^verbatim>\<open>!v\<close>, \<^verbatim>\<open>a && b\<close>, \<^verbatim>\<open>a || b\<close>.\<close>

fun truthy :: "js_value \<Rightarrow> bool" where
  "truthy Undefined = False"
| "truthy Null = False"
| "truthy (Bool b) = b"
| "truthy (Num n) = (n \<noteq> 0)"
| "truthy (Str s) = (s \<noteq> [])"
| "truthy (Arr xs) = True"
| "truthy (Obj kvs) = True"
| "truthy (NativeFunction f) = True"
| "truthy ObjectPrototype = True"

section \<open>Strings\<close>

text \<open>
  A \<^typ>\<open>char\<close> stands for the UTF-16 code unit of the same number, so the strings of the
  model are those of Latin-1.  White space is what \<^verbatim>\<open>\s\<close>, \<^verbatim>\<open>trim\<close> and \<^verbatim>\<open>parseInt\<close>
  skip in that range: TAB, LF, VT, FF, CR, SP and NBSP.
\<close>

definition code_unit :: "char \<Rightarrow> nat" where
  "code_unit c = of_char c"

definition is_space :: "char \<Rightarrow> bool" where
  "is_space c = (code_unit c \<in> {9, 10, 11, 12, 13, 32, 160})"

definition lower_char :: "char \<Rightarrow> char" where
  "lower_char c =
     (let n = code_unit c in
      if (65 \<le> n \<and> n \<le> 90) \<or> (192 \<le> n \<and> n \<le> 222 \<and> n \<noteq> 215)
      then char_of (n + 32) else c)"

definition toLowerCase :: "string \<Rightarrow> string" where
  "toLowerCase s = map lower_char s"

definition trim :: "string \<Rightarrow> string" where
  "trim s = rev (dropWhile is_space (rev (dropWhile is_space s)))"

text \<open>\<^verbatim>\<open>s.replace(/\s+/g, '-')\<close>: every maximal run of white space becomes one hyphen.\<close>

function replace_spaces :: "string \<Rightarrow> string" where
  "replace_spaces [] = []"
| "replace_spaces (c # cs) =
     (if is_space c then CHR ''-'' # replace_spaces (dropWhile is_space cs)
      else c # replace_spaces cs)"
  by pat_completeness auto
termination
  by (relation "measure length") (auto simp: length_dropWhile_le less_Suc_eq_le)

text \<open>\<^verbatim>\<open>n.toString()\<close> of an integer: its decimal numeral.\<close>

function decimal :: "nat \<Rightarrow> string" where
  "decimal n =
     (if n < 10 then [''0123456789'' ! n]
      else decimal (n div 10) @ [''0123456789'' ! (n mod 10)])"
  by pat_completeness auto
termination
  by (relation "measure id") auto

declare decimal.simps [simp del]

definition Number_toString :: "int \<Rightarrow> string" where
  "Number_toString n = (if n < 0 then CHR ''-'' # decimal (nat (- n)) else decimal (nat n))"

text \<open>
  \<^verbatim>\<open>parseInt(s)\<close> with no radix: leading white space is skipped, a sign is read, the prefix
  \<^verbatim>\<open>0x\<close> selects radix 16, and the longest prefix of digits is the value; \<open>None\<close> is \<open>NaN\<close>.
\<close>

definition digit_value :: "char \<Rightarrow> nat option" where
  "digit_value c =
     (let n = code_unit c in
      if 48 \<le> n \<and> n \<le> 57 then Some (n - 48)
      else if 97 \<le> n \<and> n \<le> 122 then Some (n - 87)
      else if 65 \<le> n \<and> n \<le> 90 then Some (n - 55)
      else None)"

definition is_digit :: "nat \<Rightarrow> char \<Rightarrow> bool" where
  "is_digit radix c = (case digit_value c of Some d \<Rightarrow> d < radix | None \<Rightarrow> False)"

definition digits_value :: "nat \<Rightarrow> string \<Rightarrow> nat" where
  "digits_value radix ds =
     foldl (\<lambda>acc c. acc * radix + (case digit_value c of Some d \<Rightarrow> d | None \<Rightarrow> 0)) 0 ds"

definition parseInt :: "string \<Rightarrow> int option" where
  "parseInt s =
     (let S = dropWhile is_space s;
          negative = (case S of c # _ \<Rightarrow> c = CHR ''-'' | [] \<Rightarrow> False);
          S1 = (case S of c # r \<Rightarrow> if c = CHR ''+'' \<or> c = CHR ''-'' then r else S | [] \<Rightarrow> S);
          hex = (case S1 of a # b # _ \<Rightarrow> a = CHR ''0'' \<and> (b = CHR ''x'' \<or> b = CHR ''X'')
                          | _ \<Rightarrow> False);
          radix = (if hex then 16 else 10);
          Z = takeWhile (is_digit radix) (if hex then drop 2 S1 else S1)
      in if Z = [] then None
         else Some ((if negative then - 1 else 1) * int (digits_value radix Z)))"

section \<open>The Cache Store\<close>

text \<open>
  \<^verbatim>\<open>localStorage\<close> holds strings under string keys.  \<^verbatim>\<open>getItem\<close> answers \<^verbatim>\<open>null\<close>
  (\<open>None\<close>) for a missing key; \<^verbatim>\<open>setItem\<close> raises \<^verbatim>\<open>QuotaExceededError\<close> and leaves the
  store as it was when the new contents would not fit the quota, which is the failure the
  handler of \<^verbatim>\<open>cacheTeams\<close> is written for; \<^verbatim>\<open>removeItem\<close> always succeeds.  A browser
  that refuses storage altogether behaves as the empty store of quota \<open>0\<close>.
\<close>

record localStorage =
  items :: "(string \<times> string) list"
  quota :: nat

definition storage_size :: "(string \<times> string) list \<Rightarrow> nat" where
  "storage_size kvs = sum_list (map (\<lambda>(k, v). length k + length v) kvs)"

definition getItem :: "localStorage \<Rightarrow> string \<Rightarrow> string option" where
  "getItem ls k = map_of (items ls) k"

definition setItem :: "localStorage \<Rightarrow> string \<Rightarrow> string \<Rightarrow> js_error + localStorage" where
  "setItem ls k v =
     (let items' = AList.update k v (items ls) in
      if storage_size items' \<le> quota ls then Inr (ls\<lparr>items := items'\<rparr>)
      else Inl QuotaExceededError)"

definition removeItem :: "localStorage \<Rightarrow> string \<Rightarrow> localStorage" where
  "removeItem ls k = ls\<lparr>items := AList.delete k (items ls)\<rparr>"

definition CACHE_KEY :: string where
  "CACHE_KEY = ''f1_teams_cache''"

definition CACHE_TIMESTAMP_KEY :: string where
  "CACHE_TIMESTAMP_KEY = ''f1_teams_cache_timestamp''"

definition CACHE_DURATION :: int where
  "CACHE_DURATION = 24 * 60 * 60 * 1000"

definition FETCH_TIMEOUT :: nat where
  "FETCH_TIMEOUT = 5000"

text \<open>
  \<^verbatim>\<open>JSON.parse\<close> and \<^verbatim>\<open>JSON.stringify\<close> belong to the platform and are parameters of the
  model: \<open>JSON_parse s = None\<close> is the \<^verbatim>\<open>SyntaxError\<close> of a text that is not JSON.
  \<^verbatim>\<open>Date.now()\<close> is the parameter \<open>now\<close> of the operation that reads the clock.
\<close>

type_synonym json_parse = "string \<Rightarrow> js_value option"
type_synonym json_stringify = "js_value \<Rightarrow> string"

definition clearCache :: "localStorage \<Rightarrow> localStorage" where
  "clearCache ls = removeItem (removeItem ls CACHE_KEY) CACHE_TIMESTAMP_KEY"

definition cacheTeams :: "json_stringify \<Rightarrow> int \<Rightarrow> js_value \<Rightarrow> localStorage \<Rightarrow> localStorage" where
  "cacheTeams JSON_stringify now teamsArray ls =
     (case setItem ls CACHE_KEY (JSON_stringify teamsArray) of
        Inl error \<Rightarrow> ls
      | Inr ls1 \<Rightarrow>
          (case setItem ls1 CACHE_TIMESTAMP_KEY (Number_toString now) of
             Inl error \<Rightarrow> ls1
           | Inr ls2 \<Rightarrow> ls2))"

text \<open>
  \<^verbatim>\<open>Date.now() - parseInt(timestamp) > CACHE_DURATION\<close>; a comparison with \<open>NaN\<close> is false.
\<close>

definition expired :: "int \<Rightarrow> string \<Rightarrow> bool" where
  "expired now timestamp =
     (case parseInt timestamp of None \<Rightarrow> False | Some t \<Rightarrow> now - t > CACHE_DURATION)"

text \<open>
  \<^verbatim>\<open>getCachedTeams\<close> returns its value, \<open>Null\<close> for \<^verbatim>\<open>null\<close>, and the store it leaves.
  \<^verbatim>\<open>!timestamp\<close> and \<^verbatim>\<open>!cachedData\<close> hold for \<^verbatim>\<open>null\<close> and for the empty string.
\<close>

definition getCachedTeams :: "json_parse \<Rightarrow> int \<Rightarrow> localStorage \<Rightarrow> js_value \<times> localStorage" where
  "getCachedTeams JSON_parse now ls =
     (case getItem ls CACHE_TIMESTAMP_KEY of
        None \<Rightarrow> (Null, ls)
      | Some timestamp \<Rightarrow>
          if timestamp = [] then (Null, ls)
          else if expired now timestamp then (Null, clearCache ls)
          else
            (case getItem ls CACHE_KEY of
               None \<Rightarrow> (Null, ls)
             | Some cachedData \<Rightarrow>
                 if cachedData = [] then (Null, ls)
                 else
                   (case JSON_parse cachedData of
                      None \<Rightarrow> (Null, clearCache ls)
                    | Some v \<Rightarrow> (v, ls))))"

definition isCacheExpired :: "int \<Rightarrow> localStorage \<Rightarrow> bool" where
  "isCacheExpired now ls =
     (case getItem ls CACHE_TIMESTAMP_KEY of
        None \<Rightarrow> True
      | Some timestamp \<Rightarrow> if timestamp = [] then True else expired now timestamp)"

text \<open>
  \<^verbatim>\<open>isCacheValid(timestamp)\<close> of \<^verbatim>\<open>utils.js\<close>, read as a condition:
  \<^verbatim>\<open>timestamp && (Date.now() - timestamp) < CACHE_DURATION\<close>.
\<close>

definition isCacheValid :: "int \<Rightarrow> int \<Rightarrow> bool" where
  "isCacheValid now timestamp = (timestamp \<noteq> 0 \<and> now - timestamp < CACHE_DURATION)"

section \<open>Property reads and conversions\<close>

text \<open>
  A property read on a plain object finds an own property first and
  \<^verbatim>\<open>Object.prototype\<close> after it, so \<^verbatim>\<open>o['constructor']\<close> is the function
  \<^verbatim>\<open>Object\<close> and \<^verbatim>\<open>o['__proto__']\<close> the prototype itself unless \<open>o\<close> has its own.
\<close>

definition Object_prototype_member :: "string \<Rightarrow> js_value" where
  "Object_prototype_member p =
     (if p = ''constructor'' then NativeFunction ''Object''
      else if p = ''__proto__'' then ObjectPrototype
      else if p \<in> set [''__defineGetter__'', ''__defineSetter__'', ''__lookupGetter__'',
                       ''__lookupSetter__'', ''hasOwnProperty'', ''isPrototypeOf'',
                       ''propertyIsEnumerable'', ''toLocaleString'', ''toString'', ''valueOf'']
      then NativeFunction p
      else Undefined)"

text \<open>
  \<open>member v p\<close> is \<^verbatim>\<open>v[p]\<close> for a receiver that is neither \<^verbatim>\<open>null\<close> nor
  \<^verbatim>\<open>undefined\<close>.  Of an array, a string, a number or a boolean only \<^verbatim>\<open>length\<close> is
  modelled: the pipeline reads no other property that such a value has (\<^verbatim>\<open>map\<close> and
  \<^verbatim>\<open>toLowerCase\<close> are modelled where they are called).
\<close>

fun member :: "js_value \<Rightarrow> string \<Rightarrow> js_value" where
  "member (Obj kvs) p =
     (case map_of kvs p of Some v \<Rightarrow> v | None \<Rightarrow> Object_prototype_member p)"
| "member (Arr xs) p = (if p = ''length'' then Num (int (length xs)) else Undefined)"
| "member (Str s) p = (if p = ''length'' then Num (int (length s)) else Undefined)"
| "member v p = Undefined"

definition get_prop :: "js_value \<Rightarrow> string \<Rightarrow> js_error + js_value" where
  "get_prop v p = (if v = Undefined \<or> v = Null then Inl TypeError else Inr (member v p))"

text \<open>\<^verbatim>\<open>a || b\<close> on values.\<close>

definition or_else :: "js_value \<Rightarrow> js_value \<Rightarrow> js_value" where
  "or_else a b = (if truthy a then a else b)"

text \<open>
  \<open>ToString\<close> of the values of the model.  An object converts as
  \<^verbatim>\<open>Object.prototype.toString\<close> does: an own \<^verbatim>\<open>toString\<close> or \<^verbatim>\<open>valueOf\<close> of a
  parsed object, which JavaScript would consult first and which raises \<^verbatim>\<open>TypeError\<close>
  when neither is callable, is outside the model.  \<open>Number_toString\<close> prints every digit,
  as JavaScript does below \<open>10^21\<close>.
\<close>

fun join_comma :: "string list \<Rightarrow> string" where
  "join_comma [] = []"
| "join_comma [s] = s"
| "join_comma (s # t # ss) = s @ '','' @ join_comma (t # ss)"

fun ToString :: "js_value \<Rightarrow> string" where
  "ToString Undefined = ''undefined''"
| "ToString Null = ''null''"
| "ToString (Bool b) = (if b then ''true'' else ''false'')"
| "ToString (Num n) = Number_toString n"
| "ToString (Str s) = s"
| "ToString (Arr xs) =
     join_comma (map (\<lambda>x. if x = Undefined \<or> x = Null then [] else ToString x) xs)"
| "ToString (Obj kvs) = ''[object Object]''"
| "ToString (NativeFunction f) = ''function '' @ f @ ''() { [native code] }''"
| "ToString ObjectPrototype = ''[object Object]''"

text \<open>
  \<open>ToNumber\<close> of a string is modelled for decimal integer literals, the only numeric
  strings of an integer model; every other non-empty text reads as \<open>NaN\<close>.
\<close>

definition StringToNumber :: "string \<Rightarrow> int option" where
  "StringToNumber s =
     (let t = trim s;
          negative = (case t of c # _ \<Rightarrow> c = CHR ''-'' | [] \<Rightarrow> False);
          body = (case t of c # r \<Rightarrow> if c = CHR ''+'' \<or> c = CHR ''-'' then r else t | [] \<Rightarrow> t)
      in if t = [] then Some 0
         else if body \<noteq> [] \<and> list_all (is_digit 10) body
         then Some ((if negative then - 1 else 1) * int (digits_value 10 body))
         else None)"

fun ToNumber :: "js_value \<Rightarrow> int option" where
  "ToNumber Undefined = None"
| "ToNumber Null = Some 0"
| "ToNumber (Bool b) = Some (if b then 1 else 0)"
| "ToNumber (Num n) = Some n"
| "ToNumber v = StringToNumber (ToString v)"

text \<open>\<^verbatim>\<open>v > 0\<close>; a comparison with \<open>NaN\<close> is false.\<close>

definition greater_than_zero :: "js_value \<Rightarrow> bool" where
  "greater_than_zero v = (case ToNumber v of None \<Rightarrow> False | Some n \<Rightarrow> n > 0)"

section \<open>Accent colours and team identifiers\<close>

text \<open>The table of \<^verbatim>\<open>getTeamAccentColor\<close> in \<^verbatim>\<open>data-fetcher.js\<close>, an object literal.\<close>

definition colors :: js_value where
  "colors = Obj
     [(''mercedes'', Str ''#00D4BE''),
      (''red bull'', Str ''#0600EF''),
      (''ferrari'', Str ''#FF1801''),
      (''mclaren'', Str ''#FF8700''),
      (''alpine'', Str ''#0093D0''),
      (''aston martin'', Str ''#006F62''),
      (''williams'', Str ''#005AFF''),
      (''alfa romeo'', Str ''#900000''),
      (''haas'', Str ''#FFFFFF''),
      (''alpha tauri'', Str ''#2B4562'')]"

definition getTeamAccentColor :: "string \<Rightarrow> js_value" where
  "getTeamAccentColor teamName =
     (let normalized = trim (toLowerCase teamName)
      in or_else (member colors normalized) (Str ''#FF1801''))"

text \<open>The table and the function of the same name in \<^verbatim>\<open>utils.js\<close>.\<close>

definition colors_utils :: js_value where
  "colors_utils = Obj
     [(''mercedes'', Str ''#00D4BE''),
      (''red bull'', Str ''#0600EF''),
      (''redbull'', Str ''#0600EF''),
      (''ferrari'', Str ''#FF1801''),
      (''mclaren'', Str ''#FF8700''),
      (''alpine'', Str ''#0093D0''),
      (''aston martin'', Str ''#006F62''),
      (''astonmartin'', Str ''#006F62''),
      (''williams'', Str ''#005AFF''),
      (''alfa romeo'', Str ''#900000''),
      (''alfaromeo'', Str ''#900000''),
      (''haas'', Str ''#FFFFFF''),
      (''alpha tauri'', Str ''#2B4562''),
      (''alphatauri'', Str ''#2B4562'')]"

definition getTeamAccentColor_utils :: "string \<Rightarrow> js_value" where
  "getTeamAccentColor_utils teamName =
     (let normalizedName = trim (toLowerCase teamName)
      in or_else (member colors_utils normalizedName) (Str ''#FF1801''))"

definition getTeamId :: "string \<Rightarrow> string" where
  "getTeamId teamName = replace_spaces (toLowerCase teamName)"

section \<open>The Remote Source\<close>

text \<open>
  What the network gives a \<^verbatim>\<open>fetch\<close>: a rejection, or a response with its status and
  the result of \<^verbatim>\<open>response.json()\<close>, \<open>None\<close> when the body is not JSON.
  \<^verbatim>\<open>response.ok\<close> is true for the statuses 200 to 299.
\<close>

datatype fetch_outcome =
    NetworkFailure
  | Response nat "js_value option"

definition ok :: "nat \<Rightarrow> bool" where
  "ok status = (200 \<le> status \<and> status \<le> 299)"

text \<open>
  The object built for one element of \<^verbatim>\<open>Teams\<close>.  \<^verbatim>\<open>team.name.toLowerCase()\<close> is
  evaluated first and raises \<^verbatim>\<open>TypeError\<close> unless \<open>team\<close> has a string \<open>name\<close>;
  \<open>year\<close> is \<^verbatim>\<open>new Date().getFullYear()\<close>.
\<close>

definition founded_year :: "int \<Rightarrow> js_value \<Rightarrow> js_value" where
  "founded_year year established =
     (case parseInt (ToString established) of
        None \<Rightarrow> Num year
      | Some n \<Rightarrow> if n \<noteq> 0 then Num n else Num year)"

definition transform_team :: "int \<Rightarrow> js_value \<Rightarrow> js_error + js_value" where
  "transform_team year team =
     (case get_prop team ''name'' of
        Inl e \<Rightarrow> Inl e
      | Inr (Str name) \<Rightarrow>
          Inr (Obj
            [(''id'', Str (replace_spaces (toLowerCase name))),
             (''name'', Str name),
             (''logo'', Str (''/images/logos/'' @ replace_spaces (toLowerCase name) @ ''.svg'')),
             (''country'', member team ''nationality''),
             (''founded'', founded_year year (member team ''established'')),
             (''principal'', Str ''Team Principal''),
             (''powerUnit'', or_else (member team ''constructor'') (Str ''Mercedes'')),
             (''championships'', Num 0),
             (''wins'', Num 0),
             (''podiums'', Num 0),
             (''accent_color'', getTeamAccentColor name),
             (''drivers'', Arr []),
             (''website'', or_else (member team ''url'') (Str ''#'')),
             (''social'', Obj [(''twitter'', Str ''#''), (''instagram'', Str ''#'')])])
      | Inr other \<Rightarrow> Inl TypeError)"

text \<open>\<^verbatim>\<open>Teams.map(f)\<close>: the first callback that raises ends the call.\<close>

fun map_teams :: "(js_value \<Rightarrow> js_error + js_value) \<Rightarrow> js_value list \<Rightarrow> js_error + js_value list" where
  "map_teams f [] = Inr []"
| "map_teams f (team # teams) =
     (case f team of
        Inl e \<Rightarrow> Inl e
      | Inr t \<Rightarrow> (case map_teams f teams of Inl e \<Rightarrow> Inl e | Inr ts \<Rightarrow> Inr (t # ts)))"

text \<open>
  The second \<^verbatim>\<open>then\<close> of \<^verbatim>\<open>fetchFromErgastAPI\<close>: the envelope is validated by
  truthiness, and \<^verbatim>\<open>map\<close> exists on arrays only.
\<close>

definition transform_response :: "int \<Rightarrow> js_value \<Rightarrow> js_error + js_value" where
  "transform_response year data =
     (case get_prop data ''MRData'' of
        Inl e \<Rightarrow> Inl e
      | Inr MRData \<Rightarrow>
          if \<not> truthy MRData \<or> \<not> truthy (member MRData ''TeamTable'')
             \<or> \<not> truthy (member (member MRData ''TeamTable'') ''Teams'')
          then Inl (Error ''Invalid API response structure'')
          else
            (case member (member MRData ''TeamTable'') ''Teams'' of
               Arr teams \<Rightarrow>
                 (case map_teams (transform_team year) teams of
                    Inl e \<Rightarrow> Inl e
                  | Inr ts \<Rightarrow> Inr (Arr ts))
             | other \<Rightarrow> Inl TypeError))"

text \<open>
  \<^verbatim>\<open>Promise.race\<close> of the request and the timer: the request chain settles \<open>latency\<close>
  milliseconds after the call and wins when that is before \<open>FETCH_TIMEOUT\<close>.  A rejected
  \<^verbatim>\<open>fetch\<close> is a \<^verbatim>\<open>TypeError\<close>, a body that is not JSON a \<^verbatim>\<open>SyntaxError\<close>.
\<close>

definition fetchFromErgastAPI :: "int \<Rightarrow> nat \<Rightarrow> fetch_outcome \<Rightarrow> js_error + js_value" where
  "fetchFromErgastAPI year latency outcome =
     (if FETCH_TIMEOUT \<le> latency then Inl (Error ''Fetch timeout'')
      else
        (case outcome of
           NetworkFailure \<Rightarrow> Inl TypeError
         | Response status body \<Rightarrow>
             if \<not> ok status
             then Inl (Error (''HTTP error! status: '' @ Number_toString (int status)))
             else
               (case body of
                  None \<Rightarrow> Inl SyntaxError
                | Some data \<Rightarrow> transform_response year data)))"

text \<open>\<^verbatim>\<open>parseErgastData\<close> of \<^verbatim>\<open>utils.js\<close>, which answers \<^verbatim>\<open>null\<close> for a missing envelope.\<close>

definition parse_team :: "int \<Rightarrow> js_value \<Rightarrow> js_error + js_value" where
  "parse_team year team =
     (case get_prop team ''name'' of
        Inl e \<Rightarrow> Inl e
      | Inr (Str name) \<Rightarrow>
          Inr (Obj
            [(''id'', Str (getTeamId name)),
             (''name'', Str name),
             (''country'', member team ''nationality''),
             (''founded'', founded_year year (member team ''established'')),
             (''principal'', Str ''Team Principal''),
             (''powerUnit'', or_else (member team ''constructor'') (Str ''Unknown'')),
             (''championships'', Num 0),
             (''wins'', Num 0),
             (''podiums'', Num 0),
             (''drivers'', Arr []),
             (''website'', or_else (member team ''url'') (Str ''#'')),
             (''accent_color'', getTeamAccentColor_utils name)])
      | Inr other \<Rightarrow> Inl TypeError)"

definition parseErgastData :: "int \<Rightarrow> js_value \<Rightarrow> js_error + js_value" where
  "parseErgastData year apiResponse =
     (if \<not> truthy apiResponse \<or> \<not> truthy (member apiResponse ''MRData'')
         \<or> \<not> truthy (member (member apiResponse ''MRData'') ''TeamTable'')
         \<or> \<not> truthy (member (member (member apiResponse ''MRData'') ''TeamTable'') ''Teams'')
      then Inr Null
      else
        (case member (member (member apiResponse ''MRData'') ''TeamTable'') ''Teams'' of
           Arr teams \<Rightarrow>
             (case map_teams (parse_team year) teams of
                Inl e \<Rightarrow> Inl e
              | Inr ts \<Rightarrow> Inr (Arr ts))
         | other \<Rightarrow> Inl TypeError))"

section \<open>The Static Fallback Source\<close>

text \<open>\<^verbatim>\<open>fetchFallbackJSON\<close> catches every failure and answers \<^verbatim>\<open>null\<close>.\<close>

definition fetchFallbackJSON :: "fetch_outcome \<Rightarrow> js_value" where
  "fetchFallbackJSON outcome =
     (case outcome of
        NetworkFailure \<Rightarrow> Null
      | Response status body \<Rightarrow>
          if \<not> ok status then Null
          else (case body of None \<Rightarrow> Null | Some document \<Rightarrow> document))"

section \<open>The data acquisition pipeline\<close>

text \<open>
  One call of \<^verbatim>\<open>fetchTeamsData\<close> runs in an environment: the clock when the cache is read
  and when it is written, the current year, and what the network gives the two requests.
  Its result records the value the promise resolves to, the store it leaves, and the calls
  it made to the sources and to the cache write, in order.
\<close>

record environment =
  now_read :: int
  now_write :: int
  current_year :: int
  remote_latency :: nat
  remote_outcome :: fetch_outcome
  fallback_outcome :: fetch_outcome

datatype call =
    FetchFromErgastAPI
  | FetchFallbackJSON
  | CacheTeams js_value

record 'a pipeline_result =
  returned :: 'a
  storage :: localStorage
  calls :: "call list"

text \<open>
  Step 3, inside the outer \<^verbatim>\<open>try\<close>: the reads of \<^verbatim>\<open>fallbackData.teams\<close> and of its
  \<^verbatim>\<open>length\<close> are the statements that could raise there.
\<close>

definition fallback_step ::
    "json_stringify \<Rightarrow> environment \<Rightarrow> localStorage \<Rightarrow> call list
       \<Rightarrow> (js_error + js_value) pipeline_result" where
  "fallback_step JSON_stringify env ls cs =
     (let fallbackData = fetchFallbackJSON (fallback_outcome env);
          cs1 = cs @ [FetchFallbackJSON];
          all_failed = \<lparr>returned = Inr (Arr []), storage = ls, calls = cs1\<rparr>
      in if \<not> truthy fallbackData then all_failed
         else
           (case get_prop fallbackData ''teams'' of
              Inl e \<Rightarrow> \<lparr>returned = Inl e, storage = ls, calls = cs1\<rparr>
            | Inr teams \<Rightarrow>
                if \<not> truthy teams then all_failed
                else
                  (case get_prop teams ''length'' of
                     Inl e \<Rightarrow> \<lparr>returned = Inl e, storage = ls, calls = cs1\<rparr>
                   | Inr len \<Rightarrow>
                       if greater_than_zero len
                       then \<lparr>returned = Inr teams,
                             storage = cacheTeams JSON_stringify (now_write env) teams ls,
                             calls = cs1 @ [CacheTeams teams]\<rparr>
                       else all_failed)))"

text \<open>The body of the outer \<^verbatim>\<open>try\<close>; \<open>Inl\<close> is an error that reaches the outer handler.\<close>

definition fetchTeamsData_try ::
    "json_parse \<Rightarrow> json_stringify \<Rightarrow> environment \<Rightarrow> localStorage
       \<Rightarrow> (js_error + js_value) pipeline_result" where
  "fetchTeamsData_try JSON_parse JSON_stringify env ls =
     (case getCachedTeams JSON_parse (now_read env) ls of
        (cachedData, ls1) \<Rightarrow>
          if truthy cachedData then \<lparr>returned = Inr cachedData, storage = ls1, calls = []\<rparr>
          else
            (case fetchFromErgastAPI (current_year env) (remote_latency env) (remote_outcome env) of
               Inl apiError \<Rightarrow> fallback_step JSON_stringify env ls1 [FetchFromErgastAPI]
             | Inr apiData \<Rightarrow>
                 if truthy apiData \<and> greater_than_zero (member apiData ''length'')
                 then \<lparr>returned = Inr apiData,
                       storage = cacheTeams JSON_stringify (now_write env) apiData ls1,
                       calls = [FetchFromErgastAPI, CacheTeams apiData]\<rparr>
                 else fallback_step JSON_stringify env ls1 [FetchFromErgastAPI]))"

text \<open>\<^verbatim>\<open>fetchTeamsData\<close>: the outer handler turns an error of the body into the empty array.\<close>

definition fetchTeamsData ::
    "json_parse \<Rightarrow> json_stringify \<Rightarrow> environment \<Rightarrow> localStorage \<Rightarrow> js_value pipeline_result" where
  "fetchTeamsData JSON_parse JSON_stringify env ls =
     (let attempt = fetchTeamsData_try JSON_parse JSON_stringify env ls
      in \<lparr>returned = (case returned attempt of Inl error \<Rightarrow> Arr [] | Inr teams \<Rightarrow> teams),
          storage = storage attempt,
          calls = calls attempt\<rparr>)"

section \<open>Runs and shapes the properties speak of\<close>

text \<open>
  A run of the Cache Store is a sequence of its three operations: \<^verbatim>\<open>cacheTeams\<close> with
  the list to write and the clock, \<^verbatim>\<open>getCachedTeams\<close> with the clock, \<^verbatim>\<open>clearCache\<close>.
\<close>

datatype cache_op =
    Write js_value int
  | Read int
  | Purge

fun cache_op_step :: "json_parse \<Rightarrow> json_stringify \<Rightarrow> cache_op \<Rightarrow> localStorage \<Rightarrow> localStorage" where
  "cache_op_step JSON_parse JSON_stringify (Write teamsArray now) ls =
     cacheTeams JSON_stringify now teamsArray ls"
| "cache_op_step JSON_parse JSON_stringify (Read now) ls = snd (getCachedTeams JSON_parse now ls)"
| "cache_op_step JSON_parse JSON_stringify Purge ls = clearCache ls"

fun run_cache_ops ::
    "json_parse \<Rightarrow> json_stringify \<Rightarrow> cache_op list \<Rightarrow> localStorage \<Rightarrow> localStorage" where
  "run_cache_ops JSON_parse JSON_stringify [] ls = ls"
| "run_cache_ops JSON_parse JSON_stringify (op # ops) ls =
     run_cache_ops JSON_parse JSON_stringify ops (cache_op_step JSON_parse JSON_stringify op ls)"

text \<open>
  A write is torn when the store takes the payload and then refuses the timestamp:
  \<^verbatim>\<open>cacheTeams\<close> has then returned through its handler with one key written.
\<close>

definition torn_write :: "json_stringify \<Rightarrow> int \<Rightarrow> js_value \<Rightarrow> localStorage \<Rightarrow> bool" where
  "torn_write JSON_stringify now teamsArray ls =
     (case setItem ls CACHE_KEY (JSON_stringify teamsArray) of
        Inl error \<Rightarrow> False
      | Inr ls1 \<Rightarrow>
          (case setItem ls1 CACHE_TIMESTAMP_KEY (Number_toString now) of
             Inl error \<Rightarrow> True
           | Inr ls2 \<Rightarrow> False))"

fun no_torn_write ::
    "json_parse \<Rightarrow> json_stringify \<Rightarrow> cache_op list \<Rightarrow> localStorage \<Rightarrow> bool" where
  "no_torn_write JSON_parse JSON_stringify [] ls = True"
| "no_torn_write JSON_parse JSON_stringify (op # ops) ls =
     ((case op of
         Write teamsArray now \<Rightarrow> \<not> torn_write JSON_stringify now teamsArray ls
       | Read now \<Rightarrow> True
       | Purge \<Rightarrow> True)
      \<and> no_torn_write JSON_parse JSON_stringify ops
            (cache_op_step JSON_parse JSON_stringify op ls))"

text \<open>A run of the pipeline: one call of \<^verbatim>\<open>fetchTeamsData\<close> after another on the same store.\<close>

fun run_pipeline ::
    "json_parse \<Rightarrow> json_stringify \<Rightarrow> environment list \<Rightarrow> localStorage \<Rightarrow> localStorage" where
  "run_pipeline JSON_parse JSON_stringify [] ls = ls"
| "run_pipeline JSON_parse JSON_stringify (env # envs) ls =
     run_pipeline JSON_parse JSON_stringify envs
       (storage (fetchTeamsData JSON_parse JSON_stringify env ls))"

text \<open>
  Own properties, and the envelope \<^verbatim>\<open>MRData.TeamTable.Teams\<close> of a response body: the
  value found by following the three names through objects, \<open>None\<close> when a step is missing.
\<close>

definition own_property :: "js_value \<Rightarrow> string \<Rightarrow> js_value option" where
  "own_property v p = (case v of Obj kvs \<Rightarrow> map_of kvs p | other \<Rightarrow> None)"

definition envelope :: "js_value \<Rightarrow> js_value option" where
  "envelope data =
     (case own_property data ''MRData'' of
        None \<Rightarrow> None
      | Some MRData \<Rightarrow>
          (case own_property MRData ''TeamTable'' of
             None \<Rightarrow> None
           | Some TeamTable \<Rightarrow> own_property TeamTable ''Teams''))"

text \<open>
  The static document has the shape \<^verbatim>\<open>{ teams: [...] }\<close>: what the fallback request
  yields has an array under \<^verbatim>\<open>teams\<close>, or \<^verbatim>\<open>null\<close>, or nothing.
\<close>

definition fallback_teams_is_list :: "environment \<Rightarrow> bool" where
  "fallback_teams_is_list env =
     (case member (fetchFallbackJSON (fallback_outcome env)) ''teams'' of
        Arr teams \<Rightarrow> True
      | Undefined \<Rightarrow> True
      | Null \<Rightarrow> True
      | other \<Rightarrow> False)"

text \<open>Two conditions on the two keys of a store, for the runs of the Cache Store.\<close>

definition timestamp_has_payload :: "localStorage \<Rightarrow> bool" where
  "timestamp_has_payload ls =
     (getItem ls CACHE_TIMESTAMP_KEY \<noteq> None \<longrightarrow> getItem ls CACHE_KEY \<noteq> None)"

definition keys_paired :: "localStorage \<Rightarrow> bool" where
  "keys_paired ls = (getItem ls CACHE_KEY = None \<longleftrightarrow> getItem ls CACHE_TIMESTAMP_KEY = None)"

text \<open>The condition kept by the pipeline: a stored payload is a non-empty list, serialized.\<close>

definition payload_of_list :: "json_stringify \<Rightarrow> localStorage \<Rightarrow> bool" where
  "payload_of_list JSON_stringify ls =
     (case getItem ls CACHE_KEY of
        None \<Rightarrow> True
      | Some cachedData \<Rightarrow> \<exists>xs. xs \<noteq> [] \<and> cachedData = JSON_stringify (Arr xs))"

section \<open>A codec for closed instances\<close>

text \<open>
  The properties below hold for every \<open>JSON_parse\<close> and \<open>JSON_stringify\<close>.  Where one of
  them is evaluated on a concrete store, this codec stands for the platform's: it writes an
  array as one \<^verbatim>\<open>0\<close> per element between brackets, so it keeps the length of an array.
\<close>

fun sample_stringify :: json_stringify where
  "sample_stringify (Arr xs) = CHR ''['' # replicate (length xs) CHR ''0'' @ '']''"
| "sample_stringify v = ''null''"

definition sample_parse :: json_parse where
  "sample_parse s =
     (case s of
        [] \<Rightarrow> None
      | c # r \<Rightarrow>
          if c = CHR ''['' \<and> r \<noteq> [] \<and> last r = CHR '']''
             \<and> list_all (\<lambda>d. d = CHR ''0'') (butlast r)
          then Some (Arr (replicate (length r - 1) (Num 0)))
          else if s = ''null'' then Some Null else None)"

text \<open>
  Concrete stores and environments for the same purpose: a store with room and nothing in
  it; a call for which both requests are refused by the network; a call whose remote
  request is answered 503 and whose fallback request yields one team; and a call whose
  fallback document has an empty list.
\<close>

definition empty_store :: localStorage where
  "empty_store = \<lparr>items = [], quota = 5000000\<rparr>"

definition fresh_store :: localStorage where
  "fresh_store =
     \<lparr>items = [(CACHE_KEY, ''[0]''), (CACHE_TIMESTAMP_KEY, ''1000'')], quota = 5000000\<rparr>"

definition offline :: environment where
  "offline =
     \<lparr>now_read = 2000, now_write = 3000, current_year = 2026, remote_latency = 120,
      remote_outcome = NetworkFailure, fallback_outcome = NetworkFailure\<rparr>"

definition fallback_only :: environment where
  "fallback_only =
     \<lparr>now_read = 2000, now_write = 3000, current_year = 2026, remote_latency = 120,
      remote_outcome = Response 503 None,
      fallback_outcome =
        Response 200 (Some (Obj [(''teams'', Arr [Obj [(''name'', Str ''Ferrari'')]])]))\<rparr>"

definition fallback_empty :: environment where
  "fallback_empty =
     \<lparr>now_read = 2000, now_write = 3000, current_year = 2026, remote_latency = 120,
      remote_outcome = Response 503 None,
      fallback_outcome = Response 200 (Some (Obj [(''teams'', Arr [])]))\<rparr>"

text \<open>
  The same codec with strings: a string without escapes is written between double quotes,
  as \<^verbatim>\<open>JSON.stringify\<close> writes it.  And a call whose remote request is answered 503 and
  whose fallback document has a string under \<^verbatim>\<open>teams\<close>.
\<close>

definition quoting_stringify :: json_stringify where
  "quoting_stringify v =
     (case v of Str s \<Rightarrow> CHR 0x22 # s @ [CHR 0x22] | other \<Rightarrow> sample_stringify v)"

definition quoting_parse :: json_parse where
  "quoting_parse s =
     (case s of
        [] \<Rightarrow> None
      | c # r \<Rightarrow>
          if c = CHR 0x22 \<and> r \<noteq> [] \<and> last r = CHR 0x22 then Some (Str (butlast r))
          else sample_parse s)"

definition fallback_text :: environment where
  "fallback_text =
     \<lparr>now_read = 2000, now_write = 3000, current_year = 2026, remote_latency = 120,
      remote_outcome = Response 503 None,
      fallback_outcome = Response 200 (Some (Obj [(''teams'', Str ''ab'')]))\<rparr>"

section \<open>Properties of the Cache Store\<close>

lemmas string_eval =
  toLowerCase_def lower_char_def is_space_def code_unit_def char_of_eq_iff trim_def
  digit_value_def is_digit_def digits_value_def parseInt_def Number_toString_def decimal.simps

lemmas store_eval =
  getItem_def setItem_def removeItem_def storage_size_def CACHE_KEY_def
  CACHE_TIMESTAMP_KEY_def CACHE_DURATION_def clearCache_def expired_def

lemma sample_round_trip:
  "sample_parse (sample_stringify (Arr xs)) = Some (Arr (replicate (length xs) (Num 0)))"
  by (simp add: sample_parse_def butlast_append list_all_iff)

lemma keys_distinct: "CACHE_KEY \<noteq> CACHE_TIMESTAMP_KEY"
  by (simp add: CACHE_KEY_def CACHE_TIMESTAMP_KEY_def)

lemma getItem_removeItem:
  "getItem (removeItem ls k) k' = (if k' = k then None else getItem ls k')"
  by (simp add: getItem_def removeItem_def delete_conv')

lemma getItem_clearCache:
  "getItem (clearCache ls) k =
     (if k = CACHE_KEY \<or> k = CACHE_TIMESTAMP_KEY then None else getItem ls k)"
  by (simp add: clearCache_def getItem_removeItem)

text \<open>
  What the read does with an entry whose timestamp and payload both parse: the payload is
  returned up to and including an age of \<open>CACHE_DURATION\<close>, and purged after it.
\<close>

lemma getCachedTeams_fresh_payload:
  assumes "getItem ls CACHE_TIMESTAMP_KEY = Some timestamp" and "parseInt timestamp = Some t"
    and "getItem ls CACHE_KEY = Some cachedData" and "cachedData \<noteq> []"
    and "JSON_parse cachedData = Some v"
  shows "getCachedTeams JSON_parse now ls =
           (if now - t \<le> CACHE_DURATION then (v, ls) else (Null, clearCache ls))"
proof -
  from assms(2) have "timestamp \<noteq> []"
    by (auto simp: parseInt_def)
  with assms show ?thesis
    by (simp add: getCachedTeams_def expired_def)
qed

text \<open>\<^verbatim>\<open>isCacheExpired\<close> draws the line where the read does.\<close>

lemma isCacheExpired_boundary:
  assumes "getItem ls CACHE_TIMESTAMP_KEY = Some timestamp" and "parseInt timestamp = Some t"
  shows "isCacheExpired now ls = (now - t > CACHE_DURATION)"
proof -
  from assms(2) have "timestamp \<noteq> []"
    by (auto simp: parseInt_def)
  with assms show ?thesis
    by (simp add: isCacheExpired_def expired_def)
qed

text \<open>
  C1 (cache validity boundary).  The claim reads an entry whose age is exactly 24 hours as
  expired, as \<open>isCacheValid\<close> does.  \<open>getCachedTeams\<close> tests \<open>now - t > CACHE_DURATION\<close>:
  at the age of exactly \<open>CACHE_DURATION\<close> it still returns the stored payload and leaves
  the store untouched, while \<open>isCacheValid\<close> rejects the same timestamp.
\<close>

theorem getCachedTeams_at_24h_returns_payload:
  "getCachedTeams sample_parse 86401000
     \<lparr>items = [(CACHE_KEY, ''[0]''), (CACHE_TIMESTAMP_KEY, ''1000'')], quota = 5000000\<rparr>
   = (Arr [Num 0],
      \<lparr>items = [(CACHE_KEY, ''[0]''), (CACHE_TIMESTAMP_KEY, ''1000'')], quota = 5000000\<rparr>)
   \<and> 86401000 - 1000 = CACHE_DURATION
   \<and> \<not> isCacheValid 86401000 1000"
  by (simp add: getCachedTeams_def string_eval store_eval isCacheValid_def sample_parse_def)

text \<open>
  C5 (read-absent purge), as the claim states it, fails: a read that finds no timestamp
  key answers absent and leaves a stored payload where it is, and a read that finds a
  fresh timestamp and no payload leaves the timestamp.
\<close>

theorem getCachedTeams_absent_without_purge:
  "fst (getCachedTeams sample_parse 2000
          \<lparr>items = [(CACHE_KEY, ''[0]'')], quota = 5000000\<rparr>) = Null
   \<and> getItem (snd (getCachedTeams sample_parse 2000
          \<lparr>items = [(CACHE_KEY, ''[0]'')], quota = 5000000\<rparr>)) CACHE_KEY = Some ''[0]''
   \<and> fst (getCachedTeams sample_parse 2000
          \<lparr>items = [(CACHE_TIMESTAMP_KEY, ''1000'')], quota = 5000000\<rparr>) = Null
   \<and> getItem (snd (getCachedTeams sample_parse 2000
          \<lparr>items = [(CACHE_TIMESTAMP_KEY, ''1000'')], quota = 5000000\<rparr>)) CACHE_TIMESTAMP_KEY
       = Some ''1000''"
  by (simp add: getCachedTeams_def string_eval store_eval)

text \<open>
  C5, amended.  The read purges in two of the four cases: when the timestamp is older than
  \<open>CACHE_DURATION\<close>, and when the payload does not deserialize, it answers absent and
  leaves the store without the payload key and without the timestamp key.  When the
  timestamp key is missing or empty, or the payload key is missing or empty under a
  timestamp that has not expired, it answers absent and leaves the store as it found it.
\<close>

theorem getCachedTeams_lazy_expiry:
  "(getItem ls CACHE_TIMESTAMP_KEY = Some timestamp \<and> parseInt timestamp = Some t
      \<and> now - t > CACHE_DURATION
    \<longrightarrow> getCachedTeams JSON_parse now ls = (Null, clearCache ls))
   \<and> (getItem ls CACHE_TIMESTAMP_KEY = Some timestamp \<and> timestamp \<noteq> []
      \<and> \<not> expired now timestamp
      \<and> getItem ls CACHE_KEY = Some cachedData \<and> cachedData \<noteq> []
      \<and> JSON_parse cachedData = None
    \<longrightarrow> getCachedTeams JSON_parse now ls = (Null, clearCache ls))
   \<and> getItem (clearCache ls) CACHE_KEY = None
   \<and> getItem (clearCache ls) CACHE_TIMESTAMP_KEY = None
   \<and> (getItem ls CACHE_TIMESTAMP_KEY = None \<or> getItem ls CACHE_TIMESTAMP_KEY = Some []
    \<longrightarrow> getCachedTeams JSON_parse now ls = (Null, ls))
   \<and> (getItem ls CACHE_TIMESTAMP_KEY = Some timestamp \<and> timestamp \<noteq> []
      \<and> \<not> expired now timestamp
      \<and> (getItem ls CACHE_KEY = None \<or> getItem ls CACHE_KEY = Some [])
    \<longrightarrow> getCachedTeams JSON_parse now ls = (Null, ls))"
proof -
  have ne: "timestamp \<noteq> []" if "parseInt timestamp = Some t"
    using that by (auto simp: parseInt_def)
  show ?thesis
    by (auto simp: getCachedTeams_def expired_def getItem_clearCache ne)
qed

theorem getCachedTeams_lazy_expiry_witness:
  "parseInt ''1000'' = Some 1000
   \<and> 90000000 - 1000 > CACHE_DURATION
   \<and> getCachedTeams sample_parse 90000000
        \<lparr>items = [(CACHE_KEY, ''[0]''), (CACHE_TIMESTAMP_KEY, ''1000'')], quota = 5000000\<rparr>
      = (Null, \<lparr>items = [], quota = 5000000\<rparr>)
   \<and> \<not> expired 2000 ''1000''
   \<and> sample_parse ''[0'' = None
   \<and> getCachedTeams sample_parse 2000
        \<lparr>items = [(CACHE_KEY, ''[0''), (CACHE_TIMESTAMP_KEY, ''1000'')], quota = 5000000\<rparr>
      = (Null, \<lparr>items = [], quota = 5000000\<rparr>)
   \<and> getCachedTeams sample_parse 2000 \<lparr>items = [(CACHE_KEY, ''[0]'')], quota = 5000000\<rparr>
      = (Null, \<lparr>items = [(CACHE_KEY, ''[0]'')], quota = 5000000\<rparr>)
   \<and> getCachedTeams sample_parse 2000
        \<lparr>items = [(CACHE_TIMESTAMP_KEY, ''1000'')], quota = 5000000\<rparr>
      = (Null, \<lparr>items = [(CACHE_TIMESTAMP_KEY, ''1000'')], quota = 5000000\<rparr>)"
proof -
  have p: "parseInt ''1000'' = Some 1000"
    by (simp add: string_eval)
  have a: "getCachedTeams sample_parse 90000000
        \<lparr>items = [(CACHE_KEY, ''[0]''), (CACHE_TIMESTAMP_KEY, ''1000'')], quota = 5000000\<rparr>
      = (Null, \<lparr>items = [], quota = 5000000\<rparr>)"
    using getCachedTeams_lazy_expiry
      [where ls = "\<lparr>items = [(CACHE_KEY, ''[0]''), (CACHE_TIMESTAMP_KEY, ''1000'')],
                     quota = 5000000\<rparr>"
         and timestamp = "''1000''" and t = 1000 and now = 90000000 and JSON_parse = sample_parse]
    by (simp add: p store_eval)
  have b: "getCachedTeams sample_parse 2000
        \<lparr>items = [(CACHE_KEY, ''[0''), (CACHE_TIMESTAMP_KEY, ''1000'')], quota = 5000000\<rparr>
      = (Null, \<lparr>items = [], quota = 5000000\<rparr>)"
    using getCachedTeams_lazy_expiry
      [where ls = "\<lparr>items = [(CACHE_KEY, ''[0''), (CACHE_TIMESTAMP_KEY, ''1000'')],
                     quota = 5000000\<rparr>"
         and timestamp = "''1000''" and now = 2000 and cachedData = "''[0''"
         and JSON_parse = sample_parse]
    by (simp add: p store_eval sample_parse_def)
  have c: "getCachedTeams sample_parse 2000 \<lparr>items = [(CACHE_KEY, ''[0]'')], quota = 5000000\<rparr>
      = (Null, \<lparr>items = [(CACHE_KEY, ''[0]'')], quota = 5000000\<rparr>)"
    using getCachedTeams_lazy_expiry
      [where ls = "\<lparr>items = [(CACHE_KEY, ''[0]'')], quota = 5000000\<rparr>" and now = 2000
         and JSON_parse = sample_parse]
    by (simp add: store_eval)
  have d: "getCachedTeams sample_parse 2000
        \<lparr>items = [(CACHE_TIMESTAMP_KEY, ''1000'')], quota = 5000000\<rparr>
      = (Null, \<lparr>items = [(CACHE_TIMESTAMP_KEY, ''1000'')], quota = 5000000\<rparr>)"
    using getCachedTeams_lazy_expiry
      [where ls = "\<lparr>items = [(CACHE_TIMESTAMP_KEY, ''1000'')], quota = 5000000\<rparr>"
         and timestamp = "''1000''" and now = 2000 and JSON_parse = sample_parse]
    by (simp add: p store_eval)
  show ?thesis
    using a b c d by (simp add: p expired_def CACHE_DURATION_def sample_parse_def)
qed

subsection \<open>Runs of the Cache Store\<close>

lemma setItem_Inr:
  assumes "setItem ls k v = Inr ls'"
  shows "getItem ls' k' = (if k' = k then Some v else getItem ls k')"
  using assms by (auto simp: setItem_def Let_def getItem_def update_conv' split: if_splits)

text \<open>
  The three ways a write can end: refused at the payload, torn between the two keys, or
  complete.
\<close>

lemma cacheTeams_keys:
  "(cacheTeams JSON_stringify now v ls = ls)
   \<or> (torn_write JSON_stringify now v ls
        \<and> getItem (cacheTeams JSON_stringify now v ls) CACHE_KEY = Some (JSON_stringify v)
        \<and> getItem (cacheTeams JSON_stringify now v ls) CACHE_TIMESTAMP_KEY
            = getItem ls CACHE_TIMESTAMP_KEY)
   \<or> (getItem (cacheTeams JSON_stringify now v ls) CACHE_KEY = Some (JSON_stringify v)
        \<and> getItem (cacheTeams JSON_stringify now v ls) CACHE_TIMESTAMP_KEY
            = Some (Number_toString now))"
proof (cases "setItem ls CACHE_KEY (JSON_stringify v)")
  case (Inl e)
  then show ?thesis by (simp add: cacheTeams_def)
next
  case (Inr ls1)
  note first = this
  show ?thesis
  proof (cases "setItem ls1 CACHE_TIMESTAMP_KEY (Number_toString now)")
    case (Inl e)
    with first show ?thesis
      using setItem_Inr [OF first] keys_distinct
      by (simp add: cacheTeams_def torn_write_def)
  next
    case (Inr ls2)
    with first show ?thesis
      using setItem_Inr [OF first] setItem_Inr [OF Inr] keys_distinct
      by (simp add: cacheTeams_def)
  qed
qed

lemma getCachedTeams_store:
  "snd (getCachedTeams JSON_parse now ls) = ls
   \<or> snd (getCachedTeams JSON_parse now ls) = clearCache ls"
  by (simp add: getCachedTeams_def split: option.splits)

lemma step_timestamp_has_payload:
  assumes "timestamp_has_payload ls"
  shows "timestamp_has_payload (cache_op_step JSON_parse JSON_stringify op ls)"
proof (cases op)
  case (Write v now)
  then show ?thesis
    using assms cacheTeams_keys [of JSON_stringify now v ls]
    by (auto simp: timestamp_has_payload_def)
next
  case (Read now)
  then show ?thesis
    using assms getCachedTeams_store [of JSON_parse now ls]
    by (auto simp: timestamp_has_payload_def getItem_clearCache)
next
  case Purge
  then show ?thesis by (simp add: timestamp_has_payload_def getItem_clearCache)
qed

lemma run_timestamp_has_payload:
  "timestamp_has_payload ls
   \<Longrightarrow> timestamp_has_payload (run_cache_ops JSON_parse JSON_stringify ops ls)"
  by (induction ops arbitrary: ls) (simp_all add: step_timestamp_has_payload)

lemma step_keys_paired:
  assumes "keys_paired ls" and "no_torn_write JSON_parse JSON_stringify [op] ls"
  shows "keys_paired (cache_op_step JSON_parse JSON_stringify op ls)"
proof (cases op)
  case (Write v now)
  then show ?thesis
    using assms cacheTeams_keys [of JSON_stringify now v ls]
    by (auto simp: keys_paired_def)
next
  case (Read now)
  then show ?thesis
    using assms getCachedTeams_store [of JSON_parse now ls]
    by (auto simp: keys_paired_def getItem_clearCache)
next
  case Purge
  then show ?thesis by (simp add: keys_paired_def getItem_clearCache)
qed

lemma run_keys_paired:
  "keys_paired ls \<Longrightarrow> no_torn_write JSON_parse JSON_stringify ops ls
   \<Longrightarrow> keys_paired (run_cache_ops JSON_parse JSON_stringify ops ls)"
proof (induction ops arbitrary: ls)
  case Nil
  then show ?case by simp
next
  case (Cons op ops)
  from Cons.prems have "keys_paired (cache_op_step JSON_parse JSON_stringify op ls)"
    by (intro step_keys_paired) simp_all
  moreover from Cons.prems
  have "no_torn_write JSON_parse JSON_stringify ops
          (cache_op_step JSON_parse JSON_stringify op ls)"
    by simp
  ultimately show ?case
    using Cons.IH by simp
qed

text \<open>
  C9 (key-pair invariant), as the claim states it, fails: a write into a store that has
  room for the payload and not for the timestamp is caught by the handler of
  \<^verbatim>\<open>cacheTeams\<close> after the payload is stored, and from the empty store it leaves the
  payload key without the timestamp key.
\<close>

theorem torn_write_leaves_payload_alone:
  "getItem (run_cache_ops sample_parse sample_stringify [Write (Arr [Num 7]) 1000]
              \<lparr>items = [], quota = 20\<rparr>) CACHE_KEY = Some ''[0]''
   \<and> getItem (run_cache_ops sample_parse sample_stringify [Write (Arr [Num 7]) 1000]
              \<lparr>items = [], quota = 20\<rparr>) CACHE_TIMESTAMP_KEY = None"
  by (simp add: cacheTeams_def string_eval store_eval)

text \<open>
  C9, amended.  From a store that holds neither key, after every sequence of writes, reads
  and purges: a timestamp key is never there without a payload key; the two keys are there
  together or not at all as long as no write was torn; and on every store, reachable or
  not, that has no timestamp key the read answers absent, whatever the payload key holds.
\<close>

theorem cache_key_pair:
  assumes "getItem ls0 CACHE_KEY = None" and "getItem ls0 CACHE_TIMESTAMP_KEY = None"
  shows "(getItem (run_cache_ops JSON_parse JSON_stringify ops ls0) CACHE_TIMESTAMP_KEY \<noteq> None
            \<longrightarrow> getItem (run_cache_ops JSON_parse JSON_stringify ops ls0) CACHE_KEY \<noteq> None)
       \<and> (no_torn_write JSON_parse JSON_stringify ops ls0
            \<longrightarrow> (getItem (run_cache_ops JSON_parse JSON_stringify ops ls0) CACHE_KEY = None
                  \<longleftrightarrow> getItem (run_cache_ops JSON_parse JSON_stringify ops ls0)
                        CACHE_TIMESTAMP_KEY = None))
       \<and> (getItem ls CACHE_TIMESTAMP_KEY = None
            \<longrightarrow> getCachedTeams JSON_parse now ls = (Null, ls))"
proof -
  from assms have "timestamp_has_payload ls0" and "keys_paired ls0"
    by (simp_all add: timestamp_has_payload_def keys_paired_def)
  then show ?thesis
    using run_timestamp_has_payload [of ls0 JSON_parse JSON_stringify ops]
      run_keys_paired [of ls0 JSON_parse JSON_stringify ops]
    by (auto simp: timestamp_has_payload_def keys_paired_def getCachedTeams_def)
qed

theorem cache_key_pair_witness:
  "getItem \<lparr>items = [], quota = 5000000\<rparr> CACHE_KEY = None
   \<and> getItem \<lparr>items = [], quota = 5000000\<rparr> CACHE_TIMESTAMP_KEY = None
   \<and> no_torn_write sample_parse sample_stringify
        [Write (Arr [Num 7]) 1000, Read 2000] \<lparr>items = [], quota = 5000000\<rparr>
   \<and> getItem (run_cache_ops sample_parse sample_stringify
        [Write (Arr [Num 7]) 1000, Read 2000] \<lparr>items = [], quota = 5000000\<rparr>)
        CACHE_TIMESTAMP_KEY = Some ''1000''
   \<and> getItem (run_cache_ops sample_parse sample_stringify
        [Write (Arr [Num 7]) 1000, Read 2000] \<lparr>items = [], quota = 5000000\<rparr>)
        CACHE_KEY \<noteq> None
   \<and> getItem \<lparr>items = [(CACHE_KEY, ''[0]'')], quota = 5000000\<rparr> CACHE_TIMESTAMP_KEY = None
   \<and> getCachedTeams sample_parse 2000 \<lparr>items = [(CACHE_KEY, ''[0]'')], quota = 5000000\<rparr>
       = (Null, \<lparr>items = [(CACHE_KEY, ''[0]'')], quota = 5000000\<rparr>)"
proof -
  have t: "getItem (run_cache_ops sample_parse sample_stringify
        [Write (Arr [Num 7]) 1000, Read 2000] \<lparr>items = [], quota = 5000000\<rparr>)
        CACHE_TIMESTAMP_KEY = Some ''1000''"
    by (simp add: cacheTeams_def getCachedTeams_def string_eval store_eval sample_parse_def)
  have n: "no_torn_write sample_parse sample_stringify
        [Write (Arr [Num 7]) 1000, Read 2000] \<lparr>items = [], quota = 5000000\<rparr>"
    by (simp add: torn_write_def string_eval store_eval)
  show ?thesis
    using t n
      cache_key_pair [where ?ls0.0 = "\<lparr>items = [], quota = 5000000\<rparr>"
        and JSON_parse = sample_parse and JSON_stringify = sample_stringify
        and ops = "[Write (Arr [Num 7]) 1000, Read 2000]"
        and ls = "\<lparr>items = [(CACHE_KEY, ''[0]'')], quota = 5000000\<rparr>" and now = 2000]
    by (simp add: getItem_def CACHE_KEY_def CACHE_TIMESTAMP_KEY_def)
qed

section \<open>Properties of the pipeline\<close>

lemmas sample_eval =
  empty_store_def fresh_store_def offline_def fallback_only_def fallback_empty_def
  sample_parse_def

lemmas pipeline_eval =
  fetchFromErgastAPI_def fetchFallbackJSON_def ok_def FETCH_TIMEOUT_def getCachedTeams_def

lemma get_prop_truthy: "truthy v \<Longrightarrow> get_prop v p = Inr (member v p)"
  by (cases v) (simp_all add: get_prop_def)

lemma transform_response_Arr:
  "transform_response year data = Inr v \<Longrightarrow> \<exists>ts. v = Arr ts"
  by (auto simp: transform_response_def split: sum.splits if_splits js_value.splits)

lemma fetchFromErgastAPI_Arr:
  "fetchFromErgastAPI year latency outcome = Inr v \<Longrightarrow> \<exists>ts. v = Arr ts"
  by (auto simp: fetchFromErgastAPI_def dest: transform_response_Arr
      split: if_splits fetch_outcome.splits option.splits)

text \<open>
  No statement of the body raises: the reads of \<^verbatim>\<open>teams\<close> and \<^verbatim>\<open>length\<close> are guarded
  by the truthiness of their receivers, so the outer handler is never entered.
\<close>

lemma fallback_step_returns:
  "\<exists>v. returned (fallback_step JSON_stringify env ls cs) = Inr v"
  by (simp add: fallback_step_def Let_def get_prop_truthy)

lemma fetchTeamsData_try_returns:
  "\<exists>v. returned (fetchTeamsData_try JSON_parse JSON_stringify env ls) = Inr v"
  by (simp add: fetchTeamsData_try_def fallback_step_returns split: prod.splits sum.splits)

lemma fallback_step_no_teams:
  assumes "fetchFallbackJSON (fallback_outcome env) = Null
           \<or> member (fetchFallbackJSON (fallback_outcome env)) ''teams''
               \<in> {Undefined, Null, Arr []}"
  shows "fallback_step JSON_stringify env ls cs
         = \<lparr>returned = Inr (Arr []), storage = ls, calls = cs @ [FetchFallbackJSON]\<rparr>"
  using assms
  by (auto simp: fallback_step_def Let_def get_prop_truthy greater_than_zero_def)

lemma getCachedTeams_hit_store:
  "truthy (fst (getCachedTeams JSON_parse now ls))
   \<Longrightarrow> snd (getCachedTeams JSON_parse now ls) = ls"
  by (auto simp: getCachedTeams_def split: option.splits if_splits)

text \<open>
  C2 (total failure never raises).  When the cache read yields nothing truthy, the remote
  fetch fails with whatever error, and the fallback fetch fails or its document has no
  \<^verbatim>\<open>teams\<close>, a \<^verbatim>\<open>null\<close> one or an empty list, the body of \<^verbatim>\<open>fetchTeamsData\<close> completes
  with the empty array and so does the call.  In every environment and on every store the
  body completes with a value: the promise is never rejected.
\<close>

theorem fetchTeamsData_total_failure:
  assumes "\<not> truthy (fst (getCachedTeams JSON_parse (now_read env) ls))"
    and "fetchFromErgastAPI (current_year env) (remote_latency env) (remote_outcome env)
         = Inl apiError"
    and "fetchFallbackJSON (fallback_outcome env) = Null
         \<or> member (fetchFallbackJSON (fallback_outcome env)) ''teams''
             \<in> {Undefined, Null, Arr []}"
  shows "returned (fetchTeamsData_try JSON_parse JSON_stringify env ls) = Inr (Arr [])
       \<and> returned (fetchTeamsData JSON_parse JSON_stringify env ls) = Arr []
       \<and> (\<exists>v. returned (fetchTeamsData_try JSON_parse' JSON_stringify' env' ls') = Inr v)"
proof -
  obtain cachedData ls1 where
    c: "getCachedTeams JSON_parse (now_read env) ls = (cachedData, ls1)"
    by (cases "getCachedTeams JSON_parse (now_read env) ls")
  with assms(1) have "\<not> truthy cachedData"
    by simp
  with c assms(2) fallback_step_no_teams [OF assms(3)]
  have "returned (fetchTeamsData_try JSON_parse JSON_stringify env ls) = Inr (Arr [])"
    by (simp add: fetchTeamsData_try_def)
  then show ?thesis
    using fetchTeamsData_try_returns [of JSON_parse' JSON_stringify' env' ls']
    by (simp add: fetchTeamsData_def Let_def)
qed

theorem fetchTeamsData_total_failure_witness:
  "\<not> truthy (fst (getCachedTeams sample_parse (now_read offline) empty_store))
   \<and> fetchFromErgastAPI (current_year offline) (remote_latency offline) (remote_outcome offline)
       = Inl TypeError
   \<and> fetchFallbackJSON (fallback_outcome offline) = Null
   \<and> returned (fetchTeamsData sample_parse sample_stringify offline empty_store) = Arr []"
proof -
  have h1: "\<not> truthy (fst (getCachedTeams sample_parse (now_read offline) empty_store))"
    by (simp add: sample_eval pipeline_eval store_eval)
  have h2: "fetchFromErgastAPI (current_year offline) (remote_latency offline)
              (remote_outcome offline) = Inl TypeError"
    by (simp add: sample_eval pipeline_eval)
  have h3: "fetchFallbackJSON (fallback_outcome offline) = Null"
    by (simp add: sample_eval pipeline_eval)
  from h3 have h3': "fetchFallbackJSON (fallback_outcome offline) = Null
      \<or> member (fetchFallbackJSON (fallback_outcome offline)) ''teams''
          \<in> {Undefined, Null, Arr []}"
    by simp
  show ?thesis
    using h1 h2 h3 fetchTeamsData_total_failure [OF h1 h2 h3', of sample_stringify]
    by simp
qed

text \<open>
  C3 (cache-hit precedence).  When the cache read returns a truthy value, the call
  resolves to that value, makes no call to the Remote Source, to the Static Fallback or to
  the cache write, and leaves the store as it found it; and the result is the same whatever
  the network would have answered to either request, and however late.
\<close>

theorem cache_hit_precedence:
  assumes "truthy (fst (getCachedTeams JSON_parse (now_read env) ls))"
  shows "fetchTeamsData JSON_parse JSON_stringify env ls
         = \<lparr>returned = fst (getCachedTeams JSON_parse (now_read env) ls),
            storage = ls, calls = []\<rparr>
       \<and> fetchTeamsData JSON_parse JSON_stringify
           (env\<lparr>remote_latency := latency, remote_outcome := remote,
                 fallback_outcome := fallback\<rparr>) ls
         = fetchTeamsData JSON_parse JSON_stringify env ls"
proof -
  have hit: "fetchTeamsData JSON_parse JSON_stringify e ls
         = \<lparr>returned = fst (getCachedTeams JSON_parse (now_read e) ls),
            storage = ls, calls = []\<rparr>"
    if "truthy (fst (getCachedTeams JSON_parse (now_read e) ls))" for e
  proof -
    obtain cachedData ls1 where
      c: "getCachedTeams JSON_parse (now_read e) ls = (cachedData, ls1)"
      by (cases "getCachedTeams JSON_parse (now_read e) ls")
    with that getCachedTeams_hit_store [OF that] have "truthy cachedData" and "ls1 = ls"
      by simp_all
    with c show ?thesis
      by (simp add: fetchTeamsData_def fetchTeamsData_try_def Let_def)
  qed
  from assms hit [of env]
    hit [of "env\<lparr>remote_latency := latency, remote_outcome := remote,
                   fallback_outcome := fallback\<rparr>"]
  show ?thesis
    by simp
qed

theorem cache_hit_precedence_witness:
  "truthy (fst (getCachedTeams sample_parse (now_read offline) fresh_store))
   \<and> fetchTeamsData sample_parse sample_stringify offline fresh_store
       = \<lparr>returned = Arr [Num 0], storage = fresh_store, calls = []\<rparr>"
proof -
  have v: "fst (getCachedTeams sample_parse (now_read offline) fresh_store) = Arr [Num 0]"
    by (simp add: sample_eval pipeline_eval string_eval store_eval)
  then have h: "truthy (fst (getCachedTeams sample_parse (now_read offline) fresh_store))"
    by simp
  show ?thesis
    using h v cache_hit_precedence [OF h, of sample_stringify]
    by simp
qed

text \<open>
  C4 (fallthrough to fallback).  When the cache read yields nothing truthy, the remote
  fetch fails, and the fallback document is an object: if its \<^verbatim>\<open>teams\<close> is a non-empty
  list, the call resolves to exactly that list after calling the cache write with it, and
  when the store accepts the two items they hold the serialized list and the time of the
  write; if its \<^verbatim>\<open>teams\<close> is the empty list or is missing, the call resolves to the
  empty array of total failure and the cache write is not called.
\<close>

theorem fallthrough_to_fallback:
  assumes "getCachedTeams JSON_parse (now_read env) ls = (cachedData, ls1)"
    and "\<not> truthy cachedData"
    and "fetchFromErgastAPI (current_year env) (remote_latency env) (remote_outcome env)
         = Inl apiError"
    and "fetchFallbackJSON (fallback_outcome env) = Obj document"
  shows "(map_of document ''teams'' = Some (Arr teams) \<and> teams \<noteq> []
          \<longrightarrow> fetchTeamsData JSON_parse JSON_stringify env ls
              = \<lparr>returned = Arr teams,
                 storage = cacheTeams JSON_stringify (now_write env) (Arr teams) ls1,
                 calls = [FetchFromErgastAPI, FetchFallbackJSON, CacheTeams (Arr teams)]\<rparr>)
       \<and> (setItem ls1 CACHE_KEY (JSON_stringify (Arr teams)) = Inr ls2
            \<and> setItem ls2 CACHE_TIMESTAMP_KEY (Number_toString (now_write env)) = Inr ls3
          \<longrightarrow> cacheTeams JSON_stringify (now_write env) (Arr teams) ls1 = ls3
              \<and> getItem ls3 CACHE_KEY = Some (JSON_stringify (Arr teams))
              \<and> getItem ls3 CACHE_TIMESTAMP_KEY = Some (Number_toString (now_write env)))
       \<and> (map_of document ''teams'' = Some (Arr []) \<or> map_of document ''teams'' = None
          \<longrightarrow> fetchTeamsData JSON_parse JSON_stringify env ls
              = \<lparr>returned = Arr [], storage = ls1,
                 calls = [FetchFromErgastAPI, FetchFallbackJSON]\<rparr>)"
proof (intro conjI impI)
  assume "map_of document ''teams'' = Some (Arr teams) \<and> teams \<noteq> []"
  with assms show "fetchTeamsData JSON_parse JSON_stringify env ls
      = \<lparr>returned = Arr teams,
         storage = cacheTeams JSON_stringify (now_write env) (Arr teams) ls1,
         calls = [FetchFromErgastAPI, FetchFallbackJSON, CacheTeams (Arr teams)]\<rparr>"
    by (simp add: fetchTeamsData_def fetchTeamsData_try_def fallback_step_def Let_def
        get_prop_truthy greater_than_zero_def)
next
  assume w: "setItem ls1 CACHE_KEY (JSON_stringify (Arr teams)) = Inr ls2
      \<and> setItem ls2 CACHE_TIMESTAMP_KEY (Number_toString (now_write env)) = Inr ls3"
  then show "cacheTeams JSON_stringify (now_write env) (Arr teams) ls1 = ls3"
    by (simp add: cacheTeams_def)
  from w have a: "setItem ls1 CACHE_KEY (JSON_stringify (Arr teams)) = Inr ls2"
    and b: "setItem ls2 CACHE_TIMESTAMP_KEY (Number_toString (now_write env)) = Inr ls3"
    by simp_all
  from setItem_Inr [OF a] setItem_Inr [OF b] keys_distinct
  show "getItem ls3 CACHE_KEY = Some (JSON_stringify (Arr teams))"
    by simp
  from setItem_Inr [OF b]
  show "getItem ls3 CACHE_TIMESTAMP_KEY = Some (Number_toString (now_write env))"
    by simp
next
  assume "map_of document ''teams'' = Some (Arr []) \<or> map_of document ''teams'' = None"
  with assms show "fetchTeamsData JSON_parse JSON_stringify env ls
      = \<lparr>returned = Arr [], storage = ls1, calls = [FetchFromErgastAPI, FetchFallbackJSON]\<rparr>"
    by (auto simp: fetchTeamsData_def fetchTeamsData_try_def fallback_step_def Let_def
        get_prop_truthy greater_than_zero_def Object_prototype_member_def)
qed

theorem fallthrough_to_fallback_witness:
  "getCachedTeams sample_parse (now_read fallback_only) empty_store = (Null, empty_store)
   \<and> fetchFromErgastAPI (current_year fallback_only) (remote_latency fallback_only)
        (remote_outcome fallback_only) = Inl (Error ''HTTP error! status: 503'')
   \<and> fetchFallbackJSON (fallback_outcome fallback_only)
       = Obj [(''teams'', Arr [Obj [(''name'', Str ''Ferrari'')]])]
   \<and> fetchTeamsData sample_parse sample_stringify fallback_only empty_store
       = \<lparr>returned = Arr [Obj [(''name'', Str ''Ferrari'')]],
          storage = \<lparr>items = [(CACHE_KEY, ''[0]''), (CACHE_TIMESTAMP_KEY, ''3000'')],
                      quota = 5000000\<rparr>,
          calls = [FetchFromErgastAPI, FetchFallbackJSON,
                   CacheTeams (Arr [Obj [(''name'', Str ''Ferrari'')]])]\<rparr>
   \<and> fetchFallbackJSON (fallback_outcome fallback_empty) = Obj [(''teams'', Arr [])]
   \<and> fetchTeamsData sample_parse sample_stringify fallback_empty empty_store
       = \<lparr>returned = Arr [], storage = empty_store,
          calls = [FetchFromErgastAPI, FetchFallbackJSON]\<rparr>"
proof -
  have c: "getCachedTeams sample_parse (now_read fallback_only) empty_store
           = (Null, empty_store)"
    by (simp add: sample_eval pipeline_eval store_eval)
  have r: "fetchFromErgastAPI (current_year fallback_only) (remote_latency fallback_only)
        (remote_outcome fallback_only) = Inl (Error ''HTTP error! status: 503'')"
    by (simp add: sample_eval pipeline_eval string_eval)
  have f: "fetchFallbackJSON (fallback_outcome fallback_only)
       = Obj [(''teams'', Arr [Obj [(''name'', Str ''Ferrari'')]])]"
    by (simp add: sample_eval pipeline_eval)
  have c': "getCachedTeams sample_parse (now_read fallback_empty) empty_store
           = (Null, empty_store)"
    by (simp add: sample_eval pipeline_eval store_eval)
  have r': "fetchFromErgastAPI (current_year fallback_empty) (remote_latency fallback_empty)
        (remote_outcome fallback_empty) = Inl (Error ''HTTP error! status: 503'')"
    by (simp add: sample_eval pipeline_eval string_eval)
  have f': "fetchFallbackJSON (fallback_outcome fallback_empty) = Obj [(''teams'', Arr [])]"
    by (simp add: sample_eval pipeline_eval)
  have n: "now_write fallback_only = 3000"
    by (simp add: fallback_only_def)
  have w: "cacheTeams sample_stringify 3000 (Arr [Obj [(''name'', Str ''Ferrari'')]]) empty_store
       = \<lparr>items = [(CACHE_KEY, ''[0]''), (CACHE_TIMESTAMP_KEY, ''3000'')], quota = 5000000\<rparr>"
    by (simp add: cacheTeams_def empty_store_def string_eval store_eval)
  show ?thesis
    using c r f f' n w
      fallthrough_to_fallback [where JSON_stringify = sample_stringify
        and teams = "[Obj [(''name'', Str ''Ferrari'')]]", OF c _ r f]
      fallthrough_to_fallback [where JSON_stringify = sample_stringify, OF c' _ r' f']
    by simp
qed

subsection \<open>What the pipeline writes to the cache\<close>

lemma fallback_step_writes:
  assumes "fallback_teams_is_list env"
  shows "(fallback_step JSON_stringify env ls cs
            = \<lparr>returned = Inr (Arr []), storage = ls, calls = cs @ [FetchFallbackJSON]\<rparr>)
         \<or> (\<exists>xs. xs \<noteq> [] \<and> fallback_step JSON_stringify env ls cs
            = \<lparr>returned = Inr (Arr xs),
               storage = cacheTeams JSON_stringify (now_write env) (Arr xs) ls,
               calls = cs @ [FetchFallbackJSON, CacheTeams (Arr xs)]\<rparr>)"
proof (cases "member (fetchFallbackJSON (fallback_outcome env)) ''teams''")
  case (Arr teams)
  then show ?thesis
    by (cases "truthy (fetchFallbackJSON (fallback_outcome env))")
      (auto simp: fallback_step_def Let_def get_prop_truthy greater_than_zero_def)
qed (use assms in
    \<open>auto simp: fallback_teams_is_list_def fallback_step_def Let_def get_prop_truthy\<close>)

text \<open>
  One call either leaves the store as the cache read left it and calls no cache write, or
  makes its only cache write with a non-empty array.
\<close>

lemma fetchTeamsData_writes:
  assumes "fallback_teams_is_list env"
  shows "(storage (fetchTeamsData JSON_parse JSON_stringify env ls)
            = snd (getCachedTeams JSON_parse (now_read env) ls)
          \<and> (\<forall>v. CacheTeams v \<notin> set (calls (fetchTeamsData JSON_parse JSON_stringify env ls))))
         \<or> (\<exists>xs. xs \<noteq> []
              \<and> storage (fetchTeamsData JSON_parse JSON_stringify env ls)
                  = cacheTeams JSON_stringify (now_write env) (Arr xs)
                      (snd (getCachedTeams JSON_parse (now_read env) ls))
              \<and> (\<forall>v. CacheTeams v \<in> set (calls (fetchTeamsData JSON_parse JSON_stringify env ls))
                    \<longrightarrow> v = Arr xs))"
proof -
  obtain cachedData ls1 where
    c: "getCachedTeams JSON_parse (now_read env) ls = (cachedData, ls1)"
    by (cases "getCachedTeams JSON_parse (now_read env) ls")
  show ?thesis
  proof (cases "truthy cachedData")
    case True
    with c show ?thesis
      by (simp add: fetchTeamsData_def fetchTeamsData_try_def Let_def)
  next
    case False
    note miss = this
    show ?thesis
    proof (cases "fetchFromErgastAPI (current_year env) (remote_latency env) (remote_outcome env)")
      case (Inl apiError)
      with c miss fallback_step_writes [OF assms, of JSON_stringify ls1 "[FetchFromErgastAPI]"]
      show ?thesis
        by (auto simp: fetchTeamsData_def fetchTeamsData_try_def Let_def)
    next
      case (Inr apiData)
      then obtain ts where ts: "apiData = Arr ts"
        using fetchFromErgastAPI_Arr by blast
      show ?thesis
      proof (cases "ts = []")
        case True
        with c miss Inr ts
          fallback_step_writes [OF assms, of JSON_stringify ls1 "[FetchFromErgastAPI]"]
        show ?thesis
          by (auto simp: fetchTeamsData_def fetchTeamsData_try_def Let_def greater_than_zero_def)
      next
        case False
        with c miss Inr ts show ?thesis
          by (auto simp: fetchTeamsData_def fetchTeamsData_try_def Let_def greater_than_zero_def)
      qed
    qed
  qed
qed

lemma payload_of_list_clearCache: "payload_of_list JSON_stringify (clearCache ls)"
  by (simp add: payload_of_list_def getItem_clearCache)

lemma payload_of_list_read:
  "payload_of_list JSON_stringify ls
   \<Longrightarrow> payload_of_list JSON_stringify (snd (getCachedTeams JSON_parse now ls))"
  using getCachedTeams_store [of JSON_parse now ls]
  by (auto simp: payload_of_list_clearCache)

lemma payload_of_list_cacheTeams:
  "payload_of_list JSON_stringify ls \<Longrightarrow> xs \<noteq> []
   \<Longrightarrow> payload_of_list JSON_stringify (cacheTeams JSON_stringify now (Arr xs) ls)"
  using cacheTeams_keys [of JSON_stringify now "Arr xs" ls]
  by (auto simp: payload_of_list_def)

lemma payload_of_list_fetchTeamsData:
  assumes "fallback_teams_is_list env" and "payload_of_list JSON_stringify ls"
  shows "payload_of_list JSON_stringify
           (storage (fetchTeamsData JSON_parse JSON_stringify env ls))"
  using fetchTeamsData_writes [OF assms(1), of JSON_parse JSON_stringify ls]
    payload_of_list_read [OF assms(2), of JSON_parse "now_read env"]
  by (auto simp: payload_of_list_cacheTeams)

lemma payload_of_list_run_pipeline:
  "\<forall>env\<in>set envs. fallback_teams_is_list env \<Longrightarrow> payload_of_list JSON_stringify ls
   \<Longrightarrow> payload_of_list JSON_stringify (run_pipeline JSON_parse JSON_stringify envs ls)"
  by (induction envs arbitrary: ls) (simp_all add: payload_of_list_fetchTeamsData)

lemma getCachedTeams_value:
  "fst (getCachedTeams JSON_parse now ls) \<noteq> Null
   \<Longrightarrow> \<exists>cachedData. getItem ls CACHE_KEY = Some cachedData
         \<and> JSON_parse cachedData = Some (fst (getCachedTeams JSON_parse now ls))"
  by (simp add: getCachedTeams_def split: option.splits if_splits)

lemma cache_hit_is_list:
  assumes "payload_of_list JSON_stringify ls"
    and "\<forall>xs. xs \<noteq> []
           \<longrightarrow> (\<exists>ys. ys \<noteq> [] \<and> JSON_parse (JSON_stringify (Arr xs)) = Some (Arr ys))"
    and "truthy (fst (getCachedTeams JSON_parse now ls))"
  shows "\<exists>ys. ys \<noteq> [] \<and> fst (getCachedTeams JSON_parse now ls) = Arr ys"
proof -
  from assms(3) have "fst (getCachedTeams JSON_parse now ls) \<noteq> Null"
    by auto
  then obtain cachedData where
    p: "getItem ls CACHE_KEY = Some cachedData"
      "JSON_parse cachedData = Some (fst (getCachedTeams JSON_parse now ls))"
    using getCachedTeams_value by blast
  from assms(1) p(1) obtain xs where xs: "xs \<noteq> []" "cachedData = JSON_stringify (Arr xs)"
    by (auto simp: payload_of_list_def)
  from assms(2) xs(1) obtain ys where
    ys: "ys \<noteq> []" "JSON_parse (JSON_stringify (Arr xs)) = Some (Arr ys)"
    by blast
  from p(2) xs(2) ys(2) have "fst (getCachedTeams JSON_parse now ls) = Arr ys"
    by simp
  with ys(1) show ?thesis by blast
qed

text \<open>
  C10 (only non-empty lists are cached), as the claim states it, fails.  Before the cache
  write \<^verbatim>\<open>fetchTeamsData\<close> tests that \<^verbatim>\<open>fallbackData.teams\<close> is truthy and that its
  \<^verbatim>\<open>length\<close> is above zero, and nothing else: a fallback document with the string
  \<^verbatim>\<open>ab\<close> under \<^verbatim>\<open>teams\<close> passes both tests, the string is written to the cache and
  returned, and the next cache read is a hit that yields the string, which is no list.
\<close>

theorem pipeline_caches_text:
  "fetchTeamsData quoting_parse quoting_stringify fallback_text empty_store
     = \<lparr>returned = Str ''ab'',
        storage = \<lparr>items = [(CACHE_KEY, [CHR 0x22, CHR ''a'', CHR ''b'', CHR 0x22]),
                            (CACHE_TIMESTAMP_KEY, ''3000'')],
                    quota = 5000000\<rparr>,
        calls = [FetchFromErgastAPI, FetchFallbackJSON, CacheTeams (Str ''ab'')]\<rparr>
   \<and> getCachedTeams quoting_parse 4000
        (run_pipeline quoting_parse quoting_stringify [fallback_text] empty_store)
     = (Str ''ab'', run_pipeline quoting_parse quoting_stringify [fallback_text] empty_store)"
proof -
  have first: "fetchTeamsData quoting_parse quoting_stringify fallback_text empty_store
     = \<lparr>returned = Str ''ab'',
        storage = \<lparr>items = [(CACHE_KEY, [CHR 0x22, CHR ''a'', CHR ''b'', CHR 0x22]),
                            (CACHE_TIMESTAMP_KEY, ''3000'')],
                    quota = 5000000\<rparr>,
        calls = [FetchFromErgastAPI, FetchFallbackJSON, CacheTeams (Str ''ab'')]\<rparr>"
    by (simp add: fetchTeamsData_def fetchTeamsData_try_def fallback_step_def get_prop_def
        greater_than_zero_def cacheTeams_def Let_def fallback_text_def empty_store_def
        quoting_parse_def quoting_stringify_def pipeline_eval string_eval store_eval)
  then show ?thesis
    by (simp add: getCachedTeams_def quoting_parse_def string_eval store_eval)
qed

text \<open>
  C10, amended.  Let the static document of every call of a run have a list under
  \<^verbatim>\<open>teams\<close>, or \<^verbatim>\<open>null\<close>, or no \<^verbatim>\<open>teams\<close>; let the run start on a store without a
  payload, and let the codec read a serialized non-empty list back as a non-empty list.
  Then every cache write of every call is made with a non-empty list, and on the store the
  run leaves, a cache read that returns something truthy returns a non-empty list.
\<close>

theorem pipeline_caches_nonempty_lists:
  assumes "getItem ls0 CACHE_KEY = None"
    and "\<forall>env\<in>set envs. fallback_teams_is_list env"
    and "\<forall>xs. xs \<noteq> []
           \<longrightarrow> (\<exists>ys. ys \<noteq> [] \<and> JSON_parse (JSON_stringify (Arr xs)) = Some (Arr ys))"
  shows "(\<forall>env\<in>set envs. \<forall>v.
            CacheTeams v \<in> set (calls (fetchTeamsData JSON_parse JSON_stringify env ls))
            \<longrightarrow> (\<exists>xs. xs \<noteq> [] \<and> v = Arr xs))
       \<and> (truthy (fst (getCachedTeams JSON_parse now
                        (run_pipeline JSON_parse JSON_stringify envs ls0)))
          \<longrightarrow> (\<exists>ys. ys \<noteq> [] \<and> fst (getCachedTeams JSON_parse now
                        (run_pipeline JSON_parse JSON_stringify envs ls0)) = Arr ys))"
proof (intro conjI ballI allI impI)
  fix env v
  assume "env \<in> set envs"
    and w: "CacheTeams v \<in> set (calls (fetchTeamsData JSON_parse JSON_stringify env ls))"
  with assms(2) have "fallback_teams_is_list env"
    by simp
  from fetchTeamsData_writes [OF this, of JSON_parse JSON_stringify ls] w
  show "\<exists>xs. xs \<noteq> [] \<and> v = Arr xs"
    by blast
next
  assume hit: "truthy (fst (getCachedTeams JSON_parse now
                        (run_pipeline JSON_parse JSON_stringify envs ls0)))"
  from assms(1) have "payload_of_list JSON_stringify ls0"
    by (simp add: payload_of_list_def)
  with assms(2)
  have "payload_of_list JSON_stringify (run_pipeline JSON_parse JSON_stringify envs ls0)"
    by (rule payload_of_list_run_pipeline)
  from cache_hit_is_list [OF this assms(3) hit]
  show "\<exists>ys. ys \<noteq> [] \<and> fst (getCachedTeams JSON_parse now
                        (run_pipeline JSON_parse JSON_stringify envs ls0)) = Arr ys" .
qed

theorem pipeline_caches_nonempty_lists_witness:
  "getItem empty_store CACHE_KEY = None
   \<and> fallback_teams_is_list fallback_only
   \<and> fallback_teams_is_list offline
   \<and> CacheTeams (Arr [Obj [(''name'', Str ''Ferrari'')]])
        \<in> set (calls (fetchTeamsData sample_parse sample_stringify fallback_only empty_store))
   \<and> truthy (fst (getCachedTeams sample_parse 4000
        (run_pipeline sample_parse sample_stringify [fallback_only, offline] empty_store)))
   \<and> (\<exists>ys. ys \<noteq> [] \<and> fst (getCachedTeams sample_parse 4000
        (run_pipeline sample_parse sample_stringify [fallback_only, offline] empty_store))
        = Arr ys)"
proof -
  have e: "getItem empty_store CACHE_KEY = None"
    by (simp add: empty_store_def getItem_def)
  have f: "fallback_teams_is_list fallback_only" "fallback_teams_is_list offline"
    by (simp_all add: fallback_teams_is_list_def sample_eval pipeline_eval)
  then have fs: "\<forall>env\<in>set [fallback_only, offline]. fallback_teams_is_list env"
    by simp
  have codec: "\<forall>xs. xs \<noteq> []
      \<longrightarrow> (\<exists>ys. ys \<noteq> [] \<and> sample_parse (sample_stringify (Arr xs)) = Some (Arr ys))"
  proof (intro allI impI)
    fix xs :: "js_value list"
    assume "xs \<noteq> []"
    then have "replicate (length xs) (Num 0) \<noteq> []"
      by simp
    with sample_round_trip [of xs]
    show "\<exists>ys. ys \<noteq> [] \<and> sample_parse (sample_stringify (Arr xs)) = Some (Arr ys)"
      by blast
  qed
  have first: "fetchTeamsData sample_parse sample_stringify fallback_only empty_store
       = \<lparr>returned = Arr [Obj [(''name'', Str ''Ferrari'')]],
          storage = \<lparr>items = [(CACHE_KEY, ''[0]''), (CACHE_TIMESTAMP_KEY, ''3000'')],
                      quota = 5000000\<rparr>,
          calls = [FetchFromErgastAPI, FetchFallbackJSON,
                   CacheTeams (Arr [Obj [(''name'', Str ''Ferrari'')]])]\<rparr>"
    by (simp add: fetchTeamsData_def fetchTeamsData_try_def fallback_step_def get_prop_def
        greater_than_zero_def cacheTeams_def Let_def sample_eval pipeline_eval string_eval
        store_eval)
  have second: "storage (fetchTeamsData sample_parse sample_stringify offline
          \<lparr>items = [(CACHE_KEY, ''[0]''), (CACHE_TIMESTAMP_KEY, ''3000'')], quota = 5000000\<rparr>)
       = \<lparr>items = [(CACHE_KEY, ''[0]''), (CACHE_TIMESTAMP_KEY, ''3000'')], quota = 5000000\<rparr>"
    by (simp add: fetchTeamsData_def fetchTeamsData_try_def Let_def sample_eval pipeline_eval
        string_eval store_eval)
  have hit: "truthy (fst (getCachedTeams sample_parse 4000
        (run_pipeline sample_parse sample_stringify [fallback_only, offline] empty_store)))"
    by (simp add: first second) (simp add: sample_eval pipeline_eval string_eval store_eval)
  show ?thesis
    using e f hit first
      pipeline_caches_nonempty_lists [OF e fs codec, of empty_store 4000]
    by simp
qed

section \<open>Properties of the Remote Source\<close>

lemma member_own_property:
  "own_property v p = Some x \<Longrightarrow> member v p = x"
  by (cases v) (simp_all add: own_property_def)

lemma member_envelope_name:
  "own_property v p = None \<Longrightarrow> p \<in> {''MRData'', ''TeamTable'', ''Teams''}
   \<Longrightarrow> member v p = Undefined"
  by (cases v) (auto simp: own_property_def Object_prototype_member_def)

lemma transform_response_no_envelope:
  assumes "envelope data = None"
  shows "transform_response year data
         = Inl (if data = Null \<or> data = Undefined then TypeError
                else Error ''Invalid API response structure'')"
proof (cases "data = Null \<or> data = Undefined")
  case True
  then show ?thesis
    by (auto simp: transform_response_def get_prop_def)
next
  case False
  then have g: "get_prop data ''MRData'' = Inr (member data ''MRData'')"
    by (simp add: get_prop_def)
  show ?thesis
  proof (cases "own_property data ''MRData''")
    case None
    then have "member data ''MRData'' = Undefined"
      by (simp add: member_envelope_name)
    with False g show ?thesis
      by (simp add: transform_response_def)
  next
    case (Some MRData)
    note m = this
    then have mm: "member data ''MRData'' = MRData"
      by (rule member_own_property)
    show ?thesis
    proof (cases "own_property MRData ''TeamTable''")
      case None
      then have "member MRData ''TeamTable'' = Undefined"
        by (simp add: member_envelope_name)
      with False g mm show ?thesis
        by (simp add: transform_response_def)
    next
      case (Some TeamTable)
      then have tt: "member MRData ''TeamTable'' = TeamTable"
        by (rule member_own_property)
      from assms m Some have "own_property TeamTable ''Teams'' = None"
        by (simp add: envelope_def)
      then have "member TeamTable ''Teams'' = Undefined"
        by (simp add: member_envelope_name)
      with False g mm tt show ?thesis
        by (simp add: transform_response_def)
    qed
  qed
qed

text \<open>
  What the fetch does with a response that arrives before the timeout.  With a success
  status and a JSON body without the envelope it fails: with the error
  \<^verbatim>\<open>Invalid API response structure\<close>, except for the body \<^verbatim>\<open>null\<close>, where reading
  \<^verbatim>\<open>MRData\<close> raises \<^verbatim>\<open>TypeError\<close> before anything is validated; a body that is not
  JSON fails with the \<^verbatim>\<open>SyntaxError\<close> of \<^verbatim>\<open>response.json()\<close>.  Whenever the response
  comes, a body without the envelope never makes the fetch complete with a value, an empty
  list included.  A response with a non-success status fails with
  \<^verbatim>\<open>HTTP error! status:\<close> and the status.
\<close>

theorem malformed_response_is_an_error:
  "(latency < FETCH_TIMEOUT \<and> ok status \<and> envelope data = None
    \<longrightarrow> fetchFromErgastAPI year latency (Response status (Some data))
        = Inl (if data = Null \<or> data = Undefined then TypeError
               else Error ''Invalid API response structure''))
   \<and> (latency < FETCH_TIMEOUT \<and> ok status
    \<longrightarrow> fetchFromErgastAPI year latency (Response status None) = Inl SyntaxError)
   \<and> (envelope data = None
    \<longrightarrow> (\<forall>v. fetchFromErgastAPI year latency' (Response status' (Some data)) \<noteq> Inr v))
   \<and> (latency < FETCH_TIMEOUT \<and> \<not> ok status
    \<longrightarrow> fetchFromErgastAPI year latency (Response status body)
        = Inl (Error (''HTTP error! status: '' @ Number_toString (int status))))"
  by (simp add: fetchFromErgastAPI_def transform_response_no_envelope)

theorem malformed_response_is_an_error_witness:
  "120 < FETCH_TIMEOUT \<and> ok 200
   \<and> envelope (Obj [(''MRData'', Obj [(''total'', Str ''0'')])]) = None
   \<and> fetchFromErgastAPI 2026 120
        (Response 200 (Some (Obj [(''MRData'', Obj [(''total'', Str ''0'')])])))
       = Inl (Error ''Invalid API response structure'')
   \<and> \<not> ok 503
   \<and> fetchFromErgastAPI 2026 120 (Response 503 None)
       = Inl (Error ''HTTP error! status: 503'')"
proof -
  have h: "120 < FETCH_TIMEOUT" "ok 200" "\<not> ok 503"
    "envelope (Obj [(''MRData'', Obj [(''total'', Str ''0'')])]) = None"
    by (simp_all add: FETCH_TIMEOUT_def ok_def envelope_def own_property_def)
  have n: "Number_toString (int 503) = ''503''"
    by (simp add: string_eval)
  show ?thesis
    using h n
      malformed_response_is_an_error [where latency = 120 and status = 200 and year = 2026
        and data = "Obj [(''MRData'', Obj [(''total'', Str ''0'')])]"]
      malformed_response_is_an_error [where latency = 120 and status = 503 and year = 2026
        and body = None]
    by simp
qed

text \<open>\<^verbatim>\<open>parseErgastData\<close> tests its argument before it reads \<^verbatim>\<open>MRData\<close> from it.\<close>

lemma parseErgastData_null: "parseErgastData year Null = Inr Null"
  by (simp add: parseErgastData_def)

text \<open>
  C6 (a malformed response is an error).  The claim has the fetch fail with the
  malformed-response error for every successful response whose body lacks the envelope.
  For the body \<^verbatim>\<open>null\<close>, which lacks it, \<^verbatim>\<open>fetchFromErgastAPI\<close> reads
  \<^verbatim>\<open>data.MRData\<close> before it has validated \<open>data\<close>: the fetch fails with the
  \<^verbatim>\<open>TypeError\<close> of that read, the error a refused connection gives, and not with
  \<^verbatim>\<open>Invalid API response structure\<close>, which it raises for the empty object.
\<close>

theorem fetchFromErgastAPI_null_body:
  "envelope Null = None
   \<and> fetchFromErgastAPI 2026 120 (Response 200 (Some Null)) = Inl TypeError
   \<and> fetchFromErgastAPI 2026 120 NetworkFailure = Inl TypeError
   \<and> fetchFromErgastAPI 2026 120 (Response 200 (Some (Obj [])))
       = Inl (Error ''Invalid API response structure'')"
  by (simp add: envelope_def own_property_def fetchFromErgastAPI_def transform_response_def
      get_prop_def ok_def FETCH_TIMEOUT_def Object_prototype_member_def)

section \<open>Properties of the normalization\<close>

lemma code_unit_lower_char:
  "\<not> (65 \<le> code_unit (lower_char c) \<and> code_unit (lower_char c) \<le> 90)"
proof -
  have "of_char (char_of (code_unit c + 32) :: char) = (code_unit c + 32) mod 256"
    by (simp add: of_char_of)
  then show ?thesis
    by (auto simp: lower_char_def Let_def code_unit_def)
qed

lemma set_trim: "set (trim s) \<subseteq> set s"
proof -
  have "set (dropWhile is_space (rev (dropWhile is_space s)))
        \<subseteq> set (rev (dropWhile is_space s))"
    by (rule set_dropWhileD [THEN subsetI])
  also have "\<dots> \<subseteq> set s"
    using set_dropWhileD [of _ is_space s] by auto
  finally show ?thesis
    by (simp add: trim_def)
qed

text \<open>A normalized name has no capital letter between \<^verbatim>\<open>A\<close> and \<^verbatim>\<open>Z\<close>.\<close>

lemma normalized_no_upper:
  "c \<in> set (trim (toLowerCase s)) \<Longrightarrow> \<not> (65 \<le> code_unit c \<and> code_unit c \<le> 90)"
  using set_trim [of "toLowerCase s"] code_unit_lower_char
  by (auto simp: toLowerCase_def)

text \<open>
  So the only properties of \<^verbatim>\<open>Object.prototype\<close> that a normalized name can reach are
  the two written in lower case.
\<close>

lemma Object_prototype_member_normalized:
  assumes "trim (toLowerCase s) \<noteq> ''constructor''"
    and "trim (toLowerCase s) \<noteq> ''__proto__''"
  shows "Object_prototype_member (trim (toLowerCase s)) = Undefined"
proof -
  have "trim (toLowerCase s) \<noteq> p"
    if "c \<in> set p" and "65 \<le> code_unit c \<and> code_unit c \<le> 90" for p c
    using that normalized_no_upper [of c s] by auto
  from this [of "CHR ''G''"] this [of "CHR ''S''"] this [of "CHR ''O''"] this [of "CHR ''P''"]
    this [of "CHR ''E''"] this [of "CHR ''L''"]
  have "trim (toLowerCase s)
        \<notin> set [''__defineGetter__'', ''__defineSetter__'', ''__lookupGetter__'',
                ''__lookupSetter__'', ''hasOwnProperty'', ''isPrototypeOf'',
                ''propertyIsEnumerable'', ''toLocaleString'', ''toString'', ''valueOf'']"
    by (simp add: code_unit_def)
  with assms show ?thesis
    by (simp add: Object_prototype_member_def)
qed

text \<open>
  Where \<^verbatim>\<open>getTeamAccentColor\<close> does what the lookup is meant to do: the two names of the
  specification, and every name whose normalized form is not in the table, the two
  inherited names apart.
\<close>

lemma getTeamAccentColor_red_bull:
  "getTeamAccentColor ''Red Bull'' = Str ''#0600EF''
   \<and> getTeamAccentColor '' red bull '' = Str ''#0600EF''
   \<and> getTeamAccentColor_utils ''Red Bull'' = Str ''#0600EF''
   \<and> getTeamAccentColor_utils '' red bull '' = Str ''#0600EF''"
  by (simp add: getTeamAccentColor_def getTeamAccentColor_utils_def colors_def colors_utils_def
      or_else_def string_eval)

lemma getTeamAccentColor_default:
  assumes "trim (toLowerCase teamName) \<noteq> ''constructor''"
    and "trim (toLowerCase teamName) \<noteq> ''__proto__''"
  shows "own_property colors (trim (toLowerCase teamName)) = None
         \<Longrightarrow> getTeamAccentColor teamName = Str ''#FF1801''"
    and "own_property colors_utils (trim (toLowerCase teamName)) = None
         \<Longrightarrow> getTeamAccentColor_utils teamName = Str ''#FF1801''"
  using Object_prototype_member_normalized [OF assms]
  by (simp_all add: getTeamAccentColor_def getTeamAccentColor_utils_def colors_def
      colors_utils_def own_property_def or_else_def Let_def)

text \<open>
  C8 (accent colour lookup).  The claim gives \<^verbatim>\<open>#FF1801\<close> to every name that is not in
  the table.  The table is an object literal, so the name \<^verbatim>\<open>constructor\<close>, which is not
  in it, finds the inherited \<^verbatim>\<open>Object.prototype.constructor\<close>: both versions of
  \<^verbatim>\<open>getTeamAccentColor\<close> return the function \<^verbatim>\<open>Object\<close> for it, and the prototype
  object for \<^verbatim>\<open>__proto__\<close>, where the claim and their own documentation promise the
  default colour.
\<close>

theorem getTeamAccentColor_inherited_name:
  "own_property colors ''constructor'' = None
   \<and> getTeamAccentColor ''constructor'' = NativeFunction ''Object''
   \<and> getTeamAccentColor '' Constructor '' = NativeFunction ''Object''
   \<and> getTeamAccentColor ''__proto__'' = ObjectPrototype
   \<and> own_property colors_utils ''constructor'' = None
   \<and> getTeamAccentColor_utils ''constructor'' = NativeFunction ''Object''"
  by (simp add: getTeamAccentColor_def getTeamAccentColor_utils_def colors_def colors_utils_def
      own_property_def or_else_def Object_prototype_member_def string_eval)

text \<open>
  What the normalization of one upstream record always gives: the slug of the name as
  \<^verbatim>\<open>id\<close>, zero statistics, no drivers, and the accent colour \<^verbatim>\<open>getTeamAccentColor\<close>
  returns for the name.
\<close>

lemma transform_team_fields:
  assumes "transform_team year team = Inr t"
  shows "\<exists>name. member team ''name'' = Str name
           \<and> member t ''id'' = Str (replace_spaces (toLowerCase name))
           \<and> member t ''championships'' = Num 0
           \<and> member t ''wins'' = Num 0
           \<and> member t ''podiums'' = Num 0
           \<and> member t ''drivers'' = Arr []
           \<and> member t ''accent_color'' = getTeamAccentColor name"
  using assms
  by (auto simp: transform_team_def get_prop_def split: if_splits js_value.splits)

lemma parse_team_fields:
  assumes "parse_team year team = Inr t"
  shows "\<exists>name. member team ''name'' = Str name
           \<and> member t ''id'' = Str (replace_spaces (toLowerCase name))
           \<and> member t ''championships'' = Num 0
           \<and> member t ''wins'' = Num 0
           \<and> member t ''podiums'' = Num 0
           \<and> member t ''drivers'' = Arr []
           \<and> member t ''accent_color'' = getTeamAccentColor_utils name"
  using assms
  by (auto simp: parse_team_def getTeamId_def get_prop_def split: if_splits js_value.splits)

lemma map_teams_list_all2:
  "map_teams f teams = Inr ts \<Longrightarrow> list_all2 (\<lambda>team t. f team = Inr t) teams ts"
  by (induction teams arbitrary: ts) (auto split: sum.splits)

text \<open>A successful fetch returns one normalized record for each upstream record, in order.\<close>

lemma fetchFromErgastAPI_normalizes:
  assumes "fetchFromErgastAPI year latency (Response status (Some data)) = Inr v"
  shows "\<exists>teams ts.
           member (member (member data ''MRData'') ''TeamTable'') ''Teams'' = Arr teams
           \<and> v = Arr ts
           \<and> list_all2 (\<lambda>team t. transform_team year team = Inr t) teams ts"
  using assms
  by (auto simp: fetchFromErgastAPI_def transform_response_def get_prop_def
      dest: map_teams_list_all2 split: if_splits sum.splits js_value.splits)

lemma parseErgastData_normalizes:
  assumes "parseErgastData year apiResponse = Inr v" and "v \<noteq> Null"
  shows "\<exists>teams ts.
           member (member (member apiResponse ''MRData'') ''TeamTable'') ''Teams'' = Arr teams
           \<and> v = Arr ts
           \<and> list_all2 (\<lambda>team t. parse_team year team = Inr t) teams ts"
  using assms
  by (auto simp: parseErgastData_def dest: map_teams_list_all2
      split: if_splits sum.splits js_value.splits)

text \<open>
  C7 (remote normalization).  The claim gives every normalized record the colour of the
  lookup with the default \<^verbatim>\<open>#FF1801\<close> for a name that is not in the table.  The record
  of an upstream team named \<^verbatim>\<open>Constructor\<close> has the slug, the zero statistics and the
  empty driver list of the claim, and the function \<^verbatim>\<open>Object\<close> as its accent colour;
  \<^verbatim>\<open>parseErgastData\<close> builds its record with the same colour.
\<close>

theorem transform_team_inherited_name:
  "transform_team 2026 (Obj [(''name'', Str ''Constructor''), (''nationality'', Str ''British'')])
   = Inr (Obj
       [(''id'', Str ''constructor''),
        (''name'', Str ''Constructor''),
        (''logo'', Str ''/images/logos/constructor.svg''),
        (''country'', Str ''British''),
        (''founded'', Num 2026),
        (''principal'', Str ''Team Principal''),
        (''powerUnit'', NativeFunction ''Object''),
        (''championships'', Num 0),
        (''wins'', Num 0),
        (''podiums'', Num 0),
        (''accent_color'', NativeFunction ''Object''),
        (''drivers'', Arr []),
        (''website'', Str ''#''),
        (''social'', Obj [(''twitter'', Str ''#''), (''instagram'', Str ''#'')])])
   \<and> own_property colors (trim (toLowerCase ''Constructor'')) = None
   \<and> parse_team 2026 (Obj [(''name'', Str ''Constructor''), (''nationality'', Str ''British'')])
   = Inr (Obj
       [(''id'', Str ''constructor''),
        (''name'', Str ''Constructor''),
        (''country'', Str ''British''),
        (''founded'', Num 2026),
        (''principal'', Str ''Team Principal''),
        (''powerUnit'', NativeFunction ''Object''),
        (''championships'', Num 0),
        (''wins'', Num 0),
        (''podiums'', Num 0),
        (''drivers'', Arr []),
        (''website'', Str ''#''),
        (''accent_color'', NativeFunction ''Object'')])"
  by (simp add: transform_team_def parse_team_def getTeamId_def get_prop_def founded_year_def
      getTeamAccentColor_def getTeamAccentColor_utils_def colors_def colors_utils_def
      own_property_def or_else_def Object_prototype_member_def string_eval)


end
